theory Spec2Isabelle
  imports Main "HOL-Library.Sublist" "HOL-Library.Char_ord"
begin

section \<open>Text: the string operations the application relies on\<close>

text \<open>
  Text is a list of characters; a character stands for the code point of its number,
  so the model covers the texts of code points below 256 (ASCII and the Latin-1
  letters, which include the accented letters of Portuguese). The operations below are
  the ones of Python's \<open>str\<close> and \<open>re\<close> that main.py and budget.py call:
  \<open>str.lower\<close>, the \<open>in\<close> test on strings, \<open>str.strip\<close>, slicing, the decimal
  rendering of an integer inside an f-string, and \<open>re.match\<close> / \<open>re.sub\<close> for the
  patterns that occur in the source.
\<close>

text \<open>
  \<open>str.lower\<close> on these characters: \<open>A\<close> to \<open>Z\<close> and the capital letters
  \<open>0xC0\<close> to \<open>0xDE\<close> (without the multiplication sign \<open>0xD7\<close>) move to their
  small letters, every other character stays.
\<close>

definition lower_char :: "char \<Rightarrow> char" where
  "lower_char c =
     (case map_of
        (zip (''ABCDEFGHIJKLMNOPQRSTUVWXYZ'' @
             [CHR 0xC0, CHR 0xC1, CHR 0xC2, CHR 0xC3, CHR 0xC4, CHR 0xC5, CHR 0xC6, CHR 0xC7,
              CHR 0xC8, CHR 0xC9, CHR 0xCA, CHR 0xCB, CHR 0xCC, CHR 0xCD, CHR 0xCE, CHR 0xCF,
              CHR 0xD0, CHR 0xD1, CHR 0xD2, CHR 0xD3, CHR 0xD4, CHR 0xD5, CHR 0xD6, CHR 0xD8,
              CHR 0xD9, CHR 0xDA, CHR 0xDB, CHR 0xDC, CHR 0xDD, CHR 0xDE])
             (''abcdefghijklmnopqrstuvwxyz'' @
             [CHR 0xE0, CHR 0xE1, CHR 0xE2, CHR 0xE3, CHR 0xE4, CHR 0xE5, CHR 0xE6, CHR 0xE7,
              CHR 0xE8, CHR 0xE9, CHR 0xEA, CHR 0xEB, CHR 0xEC, CHR 0xED, CHR 0xEE, CHR 0xEF,
              CHR 0xF0, CHR 0xF1, CHR 0xF2, CHR 0xF3, CHR 0xF4, CHR 0xF5, CHR 0xF6, CHR 0xF8,
              CHR 0xF9, CHR 0xFA, CHR 0xFB, CHR 0xFC, CHR 0xFD, CHR 0xFE])) c of
        None \<Rightarrow> c
      | Some l \<Rightarrow> l)"

definition lower :: "string \<Rightarrow> string" where
  "lower s = map lower_char s"

text \<open>\<open>py_in sub s\<close> is Python's \<open>sub in s\<close>: \<open>sub\<close> occurs in \<open>s\<close> as a contiguous run.\<close>

fun py_in :: "string \<Rightarrow> string \<Rightarrow> bool" where
  "py_in sub [] = (sub = [])"
| "py_in sub (c # s) = (prefix sub (c # s) \<or> py_in sub s)"

text \<open>The characters that \<open>str.strip\<close> removes from both ends.\<close>

definition is_space :: "char \<Rightarrow> bool" where
  "is_space c = (c \<in> set [CHR 0x09, CHR 0x0A, CHR 0x0B, CHR 0x0C, CHR 0x0D,
                           CHR 0x1C, CHR 0x1D, CHR 0x1E, CHR 0x1F, CHR 0x20,
                           CHR 0x85, CHR 0xA0])"

definition strip :: "string \<Rightarrow> string" where
  "strip s = rev (dropWhile is_space (rev (dropWhile is_space s)))"

text \<open>\<open>py_slice i j s\<close> is the slice \<open>s[i:j]\<close> for \<open>0 \<le> i \<le> j\<close>; it never raises.\<close>

definition py_slice :: "nat \<Rightarrow> nat \<Rightarrow> 'a list \<Rightarrow> 'a list" where
  "py_slice i j s = take (j - i) (drop i s)"

text \<open>The characters that \<open>\d\<close> matches: among these code points, \<open>0\<close> to \<open>9\<close>.\<close>

definition is_digit :: "char \<Rightarrow> bool" where
  "is_digit c = (CHR ''0'' \<le> c \<and> c \<le> CHR ''9'')"

definition digit_char :: "nat \<Rightarrow> char" where
  "digit_char d = ''0123456789'' ! d"

text \<open>The decimal rendering of a natural number, as \<open>f"{n}"\<close> prints it.\<close>

function str_nat :: "nat \<Rightarrow> string" where
  "str_nat n = (if n < 10 then [digit_char n] else str_nat (n div 10) @ [digit_char (n mod 10)])"
  by pat_completeness auto
termination
  by (relation "measure id") auto

declare str_nat.simps [simp del]

subsection \<open>Regular expressions\<close>

text \<open>
  The fragment of Python's \<open>re\<close> syntax that \<open>EMAIL_REGEX\<close> uses: a pattern is a
  sequence of items, each an anchor, one character, or \<open>+\<close> applied to a character
  class. \<open>re_match p True s\<close> is \<open>bool(re.match(p, s))\<close>: the pattern is matched
  from the first character of \<open>s\<close>, \<open>+\<close> may give characters back, \<open>^\<close> holds at the
  start of the string only, and \<open>$\<close> holds at the end of the string and also just
  before a newline that is its last character (no flag is set in the source).
\<close>

datatype class_item = Range char char | Ch char

datatype atom = Lit char | Cls "class_item list"

datatype item = Bol | Eol | One atom | Plus atom

fun in_class_item :: "char \<Rightarrow> class_item \<Rightarrow> bool" where
  "in_class_item c (Range lo hi) = (lo \<le> c \<and> c \<le> hi)"
| "in_class_item c (Ch a) = (c = a)"

fun accepts :: "atom \<Rightarrow> char \<Rightarrow> bool" where
  "accepts (Lit a) c = (c = a)"
| "accepts (Cls items) c = list_ex (in_class_item c) items"

fun re_match :: "item list \<Rightarrow> bool \<Rightarrow> string \<Rightarrow> bool" where
  "re_match [] at_start s = True"
| "re_match (Bol # p) at_start s = (at_start \<and> re_match p at_start s)"
| "re_match (Eol # p) at_start s = ((s = [] \<or> s = [CHR 0x0A]) \<and> re_match p at_start s)"
| "re_match (One a # p) at_start [] = False"
| "re_match (One a # p) at_start (c # s) = (accepts a c \<and> re_match p False s)"
| "re_match (Plus a # p) at_start [] = False"
| "re_match (Plus a # p) at_start (c # s) =
     (accepts a c \<and> (re_match (Plus a # p) False s \<or> re_match p False s))"

text \<open>\<open>re.sub(r'\D', '', s)\<close>: every character that is not a digit is removed.\<close>

definition re_sub_non_digits :: "string \<Rightarrow> string" where
  "re_sub_non_digits s = filter is_digit s"

section \<open>DataValidator\<close>

text \<open>
  \<open>EMAIL_REGEX = re.compile(r'^[a-zA-Z0-9_.+-]+@[a-zA-Z0-9-]+\.[a-zA-Z0-9-.]+$')\<close>,
  the same in main.py and in budget.py.
\<close>

definition local_class :: atom where
  "local_class = Cls [Range CHR ''a'' CHR ''z'', Range CHR ''A'' CHR ''Z'',
                      Range CHR ''0'' CHR ''9'', Ch CHR ''_'', Ch CHR ''.'', Ch CHR ''+'',
                      Ch CHR ''-'']"

definition domain_class :: atom where
  "domain_class = Cls [Range CHR ''a'' CHR ''z'', Range CHR ''A'' CHR ''Z'',
                       Range CHR ''0'' CHR ''9'', Ch CHR ''-'']"

definition suffix_class :: atom where
  "suffix_class = Cls [Range CHR ''a'' CHR ''z'', Range CHR ''A'' CHR ''Z'',
                       Range CHR ''0'' CHR ''9'', Ch CHR ''-'', Ch CHR ''.'']"

definition EMAIL_REGEX :: "item list" where
  "EMAIL_REGEX = [Bol, Plus local_class, One (Lit CHR ''@''), Plus domain_class,
                  One (Lit CHR ''.''), Plus suffix_class, Eol]"

definition validate_email :: "string \<Rightarrow> bool" where
  "validate_email email = re_match EMAIL_REGEX True email"

section \<open>Identifier generation\<close>

text \<open>
  \<open>generate_client_id\<close> and \<open>generate_budget_id\<close> return
  \<open>f"AUT-{secrets.randbelow(9000) + 1000}"\<close> and the same with \<open>ART-\<close>. The value
  \<open>r\<close> that \<open>secrets.randbelow(9000)\<close> returns is the argument here; the library
  draws it uniformly from \<open>0 \<le> r < 9000\<close>.
\<close>

definition generate_client_id :: "nat \<Rightarrow> string" where
  "generate_client_id r = ''AUT-'' @ str_nat (r + 1000)"

definition generate_budget_id :: "nat \<Rightarrow> string" where
  "generate_budget_id r = ''ART-'' @ str_nat (r + 1000)"

text \<open>
  How many of the 9000 equally likely outcomes of \<open>secrets.randbelow(9000)\<close> make a
  generator return the identifier \<open>s\<close>.
\<close>

definition outcomes :: "(nat \<Rightarrow> string) \<Rightarrow> string \<Rightarrow> nat" where
  "outcomes gen s = card {r \<in> {..<9000}. gen r = s}"

section \<open>Phone formatting\<close>

text \<open>
  \<open>format_phone_entry\<close> reads the entry's text and replaces it by the formatted
  text; the function below maps the one to the other.
\<close>

definition format_phone_entry :: "string \<Rightarrow> string" where
  "format_phone_entry text =
     (let phone = re_sub_non_digits text;
          f0 = [];
          f1 = (if length phone > 0 then f0 @ ''('' @ take 2 phone else f0);
          f2 = (if length phone > 2 then f1 @ '') '' @ py_slice 2 3 phone else f1);
          f3 = (if length phone > 3 then f2 @ '' '' @ py_slice 3 7 phone else f2);
          f4 = (if length phone > 7 then f3 @ ''-'' @ py_slice 7 11 phone else f3)
      in f4)"

text \<open>The text that \<open>format_phone_entry\<close> builds from the digit string \<open>phone\<close>.\<close>

definition render_phone :: "string \<Rightarrow> string" where
  "render_phone phone =
     (let f0 = [];
          f1 = (if length phone > 0 then f0 @ ''('' @ take 2 phone else f0);
          f2 = (if length phone > 2 then f1 @ '') '' @ py_slice 2 3 phone else f1);
          f3 = (if length phone > 3 then f2 @ '' '' @ py_slice 3 7 phone else f2);
          f4 = (if length phone > 7 then f3 @ ''-'' @ py_slice 7 11 phone else f3)
      in f4)"

section \<open>The store\<close>

text \<open>
  The application keeps its records in an SQLite file and reaches it only through the
  statements below. A database maps a table name to a table; a table has its column
  names as declared, its rows in storage order and the last value given to the
  autoincrement key \<open>id\<close>; a row maps each column of its table to a value. A statement
  that names a missing table or column raises \<open>sqlite3.OperationalError\<close> and changes
  nothing.

  SQLite compares the names of tables and columns without regard to the case of the
  letters \<open>A\<close> to \<open>Z\<close>. So a database is keyed by the folded table name and a row by
  the folded column name, while \<open>columns\<close> keeps the names as they were declared (what
  \<open>PRAGMA table_info\<close> reports).
\<close>

definition fold_char :: "char \<Rightarrow> char" where
  "fold_char c =
     (case map_of (zip ''ABCDEFGHIJKLMNOPQRSTUVWXYZ'' ''abcdefghijklmnopqrstuvwxyz'') c of
        None \<Rightarrow> c
      | Some l \<Rightarrow> l)"

definition fold_name :: "string \<Rightarrow> string" where
  "fold_name s = map fold_char s"

datatype sql_value = Null | Text string | Integer int

type_synonym row = "string \<rightharpoonup> sql_value"

record table =
  columns :: "string list"
  rows :: "row list"
  last_id :: int

type_synonym database = "string \<rightharpoonup> table"

datatype sqlite_error = NoSuchTable string | NoSuchColumn string | DuplicateColumn string

datatype exception = OperationalError sqlite_error | AttributeError | IndexError

text \<open>A table has a column when a declared name equals it up to case.\<close>

definition has_column :: "table \<Rightarrow> string \<Rightarrow> bool" where
  "has_column t c = (fold_name c \<in> set (map fold_name (columns t)))"

text \<open>The value a fetched row holds for a column.\<close>

definition cell :: "row \<Rightarrow> string \<Rightarrow> sql_value" where
  "cell r c = (case r (fold_name c) of None \<Rightarrow> Null | Some v \<Rightarrow> v)"

text \<open>Preparing a statement: its table and every column it names must exist.\<close>

definition table_check :: "string \<Rightarrow> string list \<Rightarrow> database \<Rightarrow> sqlite_error + table" where
  "table_check name cols db =
     (case db (fold_name name) of
        None \<Rightarrow> Inl (NoSuchTable name)
      | Some t \<Rightarrow>
          (case filter (\<lambda>c. \<not> has_column t c) cols of
             [] \<Rightarrow> Inr t
           | c # _ \<Rightarrow> Inl (NoSuchColumn c)))"

text \<open>\<open>CREATE TABLE IF NOT EXISTS name (cols)\<close>\<close>

definition create_table_if_not_exists :: "string \<Rightarrow> string list \<Rightarrow> database \<Rightarrow> database" where
  "create_table_if_not_exists name cols db =
     (case db (fold_name name) of
        None \<Rightarrow> db(fold_name name \<mapsto> \<lparr>columns = cols, rows = [], last_id = 0\<rparr>)
      | Some t \<Rightarrow> db)"

text \<open>\<open>PRAGMA table_info(name)\<close>, read as \<open>[column[1] for column in cursor.fetchall()]\<close>\<close>

definition pragma_table_info :: "string \<Rightarrow> database \<Rightarrow> string list" where
  "pragma_table_info name db =
     (case db (fold_name name) of None \<Rightarrow> [] | Some t \<Rightarrow> columns t)"

text \<open>
  \<open>ALTER TABLE name ADD COLUMN col TEXT\<close>: the rows already stored get NULL. A column
  of that name, in any case of letters, makes the statement fail.
\<close>

definition alter_table_add_column :: "string \<Rightarrow> string \<Rightarrow> database \<Rightarrow> sqlite_error + database" where
  "alter_table_add_column name col db =
     (case db (fold_name name) of
        None \<Rightarrow> Inl (NoSuchTable name)
      | Some t \<Rightarrow>
          if has_column t col then Inl (DuplicateColumn col)
          else Inr (db(fold_name name \<mapsto>
                         t\<lparr>columns := columns t @ [col],
                           rows := map (\<lambda>r. r(fold_name col \<mapsto> Null)) (rows t)\<rparr>)))"

text \<open>\<open>SELECT cols FROM name\<close>, fetched with \<open>fetchall\<close>\<close>

definition sql_select :: "string \<Rightarrow> string list \<Rightarrow> database \<Rightarrow> sqlite_error + sql_value list list" where
  "sql_select name cols db =
     (case table_check name cols db of
        Inl e \<Rightarrow> Inl e
      | Inr t \<Rightarrow> Inr (map (\<lambda>r. map (cell r) cols) (rows t)))"

text \<open>
  The scalar subquery \<open>(SELECT col FROM name WHERE wcol = ?)\<close> with a text parameter:
  the value of the first matching row, NULL when no row matches.
\<close>

definition sql_scalar_select :: "string \<Rightarrow> string \<Rightarrow> string \<Rightarrow> string \<Rightarrow> database \<Rightarrow> sqlite_error + sql_value" where
  "sql_scalar_select name col wcol v db =
     (case table_check name [col, wcol] db of
        Inl e \<Rightarrow> Inl e
      | Inr t \<Rightarrow>
          Inr (case filter (\<lambda>r. r (fold_name wcol) = Some (Text v)) (rows t) of
                 [] \<Rightarrow> Null
               | r # _ \<Rightarrow> cell r col))"

text \<open>
  \<open>INSERT INTO name (cols) VALUES (vals)\<close>: one row is appended; the columns not
  named hold NULL, apart from the autoincrement key \<open>id\<close>.
\<close>

definition new_row :: "table \<Rightarrow> string list \<Rightarrow> sql_value list \<Rightarrow> row" where
  "new_row t cols vals =
     ((\<lambda>c. Some (if c = ''id'' then Integer (last_id t + 1) else Null))
        |` set (map fold_name (columns t)))
       ++ map_of (zip (map fold_name cols) vals)"

definition sql_insert :: "string \<Rightarrow> string list \<Rightarrow> sql_value list \<Rightarrow> database \<Rightarrow> sqlite_error + database" where
  "sql_insert name cols vals db =
     (case table_check name cols db of
        Inl e \<Rightarrow> Inl e
      | Inr t \<Rightarrow> Inr (db(fold_name name \<mapsto> t\<lparr>rows := rows t @ [new_row t cols vals],
                                                 last_id := last_id t + 1\<rparr>)))"

text \<open>\<open>UPDATE name SET c1 = ?, ... WHERE wcol = ?\<close> with a text parameter for \<open>wcol\<close>\<close>

definition sql_update :: "string \<Rightarrow> (string \<times> sql_value) list \<Rightarrow> string \<Rightarrow> string \<Rightarrow> database \<Rightarrow> sqlite_error + database" where
  "sql_update name sets wcol v db =
     (case table_check name (map fst sets @ [wcol]) db of
        Inl e \<Rightarrow> Inl e
      | Inr t \<Rightarrow>
          Inr (db(fold_name name \<mapsto>
                    t\<lparr>rows := map (\<lambda>r. if r (fold_name wcol) = Some (Text v)
                                         then r ++ map_of (map (\<lambda>(c, x). (fold_name c, x)) sets)
                                         else r)
                                  (rows t)\<rparr>)))"

text \<open>\<open>DELETE FROM name WHERE wcol = ?\<close> with a text parameter\<close>

definition sql_delete :: "string \<Rightarrow> string \<Rightarrow> string \<Rightarrow> database \<Rightarrow> sqlite_error + database" where
  "sql_delete name wcol v db =
     (case table_check name [wcol] db of
        Inl e \<Rightarrow> Inl e
      | Inr t \<Rightarrow>
          Inr (db(fold_name name \<mapsto>
                    t\<lparr>rows := filter (\<lambda>r. r (fold_name wcol) \<noteq> Some (Text v)) (rows t)\<rparr>)))"

section \<open>Schema initialisation (DatabaseManager)\<close>

definition clients_columns :: "string list" where
  "clients_columns = [''id'', ''client_id'', ''name'', ''email'', ''phone'', ''observation'',
                      ''date_added'']"

text \<open>The budgets table as main.py creates it.\<close>

definition budgets_columns_main :: "string list" where
  "budgets_columns_main = [''id'', ''budget_id'', ''name'', ''email'', ''date'', ''type'',
                           ''completion'', ''deadline'', ''service'']"

text \<open>The budgets table as budget.py creates it.\<close>

definition budgets_columns_budget :: "string list" where
  "budgets_columns_budget = [''id'', ''budget_id'', ''client_id'', ''date'', ''type'',
                             ''completion'', ''deadline'', ''service'']"

definition users_columns :: "string list" where
  "users_columns = [''id'', ''username'', ''password'']"

text \<open>The part both files share: the clients table and its two added columns.\<close>

definition init_clients :: "database \<Rightarrow> sqlite_error + database" where
  "init_clients db =
     (let db1 = create_table_if_not_exists ''clients'' clients_columns db;
          cols = pragma_table_info ''clients'' db1
      in case (if ''client_id'' \<notin> set cols
               then alter_table_add_column ''clients'' ''client_id'' db1 else Inr db1) of
           Inl e \<Rightarrow> Inl e
         | Inr db2 \<Rightarrow>
             (if ''date_added'' \<notin> set cols
              then alter_table_add_column ''clients'' ''date_added'' db2 else Inr db2))"

text \<open>\<open>init_database\<close> of main.py\<close>

definition init_database_main :: "database \<Rightarrow> sqlite_error + database" where
  "init_database_main db =
     (case init_clients db of
        Inl e \<Rightarrow> Inl e
      | Inr db3 \<Rightarrow> Inr (create_table_if_not_exists ''budgets'' budgets_columns_main db3))"

text \<open>\<open>init_database\<close> of budget.py\<close>

definition init_database_budget :: "database \<Rightarrow> sqlite_error + database" where
  "init_database_budget db =
     (case init_clients db of
        Inl e \<Rightarrow> Inl e
      | Inr db3 \<Rightarrow>
          Inr (create_table_if_not_exists ''users'' users_columns
                 (create_table_if_not_exists ''budgets'' budgets_columns_budget db3)))"

section \<open>The operations of the forms\<close>

text \<open>
  How a handler ends: with a warning and nothing done, with success, with the error of
  a failed statement (caught, logged and shown), with nothing at all when the user
  declines the confirmation, or with an exception that no \<open>except\<close> clause of the
  handler catches.
\<close>

datatype warning = NameRequired | EmailInvalid | ClientNameRequired | NoSelection

datatype outcome = Warning warning | Success | Failed exception | Declined | Raised exception

text \<open>\<open>xs[i]\<close> for \<open>i \<ge> 0\<close>, and a sequence of such reads, from left to right.\<close>

definition py_index :: "'a list \<Rightarrow> nat \<Rightarrow> exception + 'a" where
  "py_index xs i = (if i < length xs then Inr (xs ! i) else Inl IndexError)"

fun py_indexes :: "'a list \<Rightarrow> nat list \<Rightarrow> exception + 'a list" where
  "py_indexes xs [] = Inr []"
| "py_indexes xs (i # ix) =
     (case py_index xs i of
        Inl e \<Rightarrow> Inl e
      | Inr x \<Rightarrow> (case py_indexes xs ix of Inl e \<Rightarrow> Inl e | Inr ys \<Rightarrow> Inr (x # ys)))"

subsection \<open>Entries with a placeholder\<close>

text \<open>
  \<open>add_placeholder\<close> binds two handlers to an entry: on gaining the focus an entry
  that shows the placeholder is emptied, on losing it an empty entry is filled with
  the placeholder again. Both map the text of the entry to its new text.
\<close>

definition on_focus_in :: "string \<Rightarrow> string \<Rightarrow> string" where
  "on_focus_in placeholder text = (if text = placeholder then [] else text)"

definition on_focus_out :: "string \<Rightarrow> string \<Rightarrow> string" where
  "on_focus_out placeholder text = (if text = [] then placeholder else text)"

subsection \<open>Clients (main.py)\<close>

text \<open>
  \<open>next_step\<close> of \<open>open_add_client_dialog\<close>: the texts of the three entries are
  checked; on success the second dialog opens with them.
\<close>

definition add_client_next_step :: "string \<Rightarrow> string \<Rightarrow> string \<Rightarrow> warning + (string \<times> string \<times> string)" where
  "add_client_next_step name email phone =
     (if name = ''Digite o nome'' \<or> name = [] then Inl NameRequired
      else if email \<noteq> ''Digite o email'' \<and> \<not> validate_email email then Inl EmailInvalid
      else Inr (name, email, phone))"

text \<open>
  Pressing the button of that dialog. A button runs its command only while it has
  the focus (a click gives it the focus first), so each of the three entries has lost
  the focus, and run \<open>on_focus_out\<close>, since the user left the text \<open>name_text\<close>,
  \<open>email_text\<close>, \<open>phone_text\<close> in it.
\<close>

definition add_client_dialog_next_step :: "string \<Rightarrow> string \<Rightarrow> string \<Rightarrow> warning + (string \<times> string \<times> string)" where
  "add_client_dialog_next_step name_text email_text phone_text =
     add_client_next_step (on_focus_out ''Digite o nome'' name_text)
       (on_focus_out ''Digite o email'' email_text)
       (on_focus_out ''(XX) X XXXX-XXXX'' phone_text)"

text \<open>
  \<open>save_client\<close> of \<open>open_add_client_observation_dialog\<close>. \<open>observation_text\<close> is
  the content of the text widget, \<open>r\<close> the outcome of \<open>secrets.randbelow(9000)\<close> and
  \<open>today\<close> the current date as \<open>strftime("%d/%m/%Y")\<close> prints it.
\<close>

definition add_client_save_client :: "string \<Rightarrow> string \<Rightarrow> string \<Rightarrow> string \<Rightarrow> nat \<Rightarrow> string \<Rightarrow> database \<Rightarrow> database \<times> outcome" where
  "add_client_save_client name email phone observation_text r today db =
     (let observation = strip observation_text;
          client_id = generate_client_id r;
          date_added = today
      in case sql_insert ''clients''
                [''client_id'', ''name'', ''email'', ''phone'', ''observation'', ''date_added'']
                [Text client_id, Text name, Text email, Text phone, Text observation,
                 Text date_added] db of
           Inl e \<Rightarrow> (db, Failed (OperationalError e))
         | Inr db' \<Rightarrow> (db', Success))"

text \<open>The two dialogs of "Adicionar Cliente" in a row.\<close>

definition add_client :: "string \<Rightarrow> string \<Rightarrow> string \<Rightarrow> string \<Rightarrow> nat \<Rightarrow> string \<Rightarrow> database \<Rightarrow> database \<times> outcome" where
  "add_client name email phone observation_text r today db =
     (case add_client_next_step name email phone of
        Inl w \<Rightarrow> (db, Warning w)
      | Inr (n, e, p) \<Rightarrow> add_client_save_client n e p observation_text r today db)"

text \<open>
  The same, operated through the widgets: the button of the first dialog is pressed
  with the texts \<open>name_text\<close>, \<open>email_text\<close>, \<open>phone_text\<close> left in its entries.
\<close>

definition add_client_dialog :: "string \<Rightarrow> string \<Rightarrow> string \<Rightarrow> string \<Rightarrow> nat \<Rightarrow> string \<Rightarrow> database \<Rightarrow> database \<times> outcome" where
  "add_client_dialog name_text email_text phone_text observation_text r today db =
     (case add_client_dialog_next_step name_text email_text phone_text of
        Inl w \<Rightarrow> (db, Warning w)
      | Inr (n, e, p) \<Rightarrow> add_client_save_client n e p observation_text r today db)"

text \<open>\<open>next_step\<close> of \<open>open_edit_client_dialog\<close>\<close>

definition edit_client_next_step :: "string \<Rightarrow> string \<Rightarrow> string \<Rightarrow> string \<Rightarrow> warning + (string \<times> string \<times> string \<times> string)" where
  "edit_client_next_step client_id name email phone =
     (if name = ''Digite o nome'' \<or> name = [] then Inl NameRequired
      else if email \<noteq> ''Digite o email'' \<and> \<not> validate_email email then Inl EmailInvalid
      else Inr (client_id, name, email, phone))"

text \<open>\<open>save_client\<close> of \<open>open_edit_client_observation_dialog\<close>\<close>

definition edit_client_save_client :: "string \<Rightarrow> string \<Rightarrow> string \<Rightarrow> string \<Rightarrow> string \<Rightarrow> database \<Rightarrow> database \<times> outcome" where
  "edit_client_save_client client_id name email phone observation_text db =
     (let observation = strip observation_text
      in case sql_update ''clients''
                [(''name'', Text name), (''email'', Text email), (''phone'', Text phone),
                 (''observation'', Text observation)]
                ''client_id'' client_id db of
           Inl e \<Rightarrow> (db, Failed (OperationalError e))
         | Inr db' \<Rightarrow> (db', Success))"

text \<open>
  \<open>delete_client_record\<close>: \<open>selected\<close> is the identifier shown in the selected row of
  the table widget, if a row is selected; \<open>confirm\<close> is the user's answer.
\<close>

definition delete_client_record :: "string option \<Rightarrow> bool \<Rightarrow> database \<Rightarrow> database \<times> outcome" where
  "delete_client_record selected confirm db =
     (case selected of
        None \<Rightarrow> (db, Warning NoSelection)
      | Some client_id \<Rightarrow>
          if confirm then
            (case sql_delete ''clients'' ''client_id'' client_id db of
               Inl e \<Rightarrow> (db, Failed (OperationalError e))
             | Inr db' \<Rightarrow> (db', Success))
          else (db, Declined))"

subsection \<open>Searching the clients (main.py)\<close>

text \<open>\<open>search_term in row[i].lower()\<close>: only text has \<open>lower\<close>.\<close>

fun field_contains :: "string \<Rightarrow> sql_value \<Rightarrow> exception + bool" where
  "field_contains search_term (Text s) = Inr (py_in search_term (lower s))"
| "field_contains search_term Null = Inl AttributeError"
| "field_contains search_term (Integer i) = Inl AttributeError"

text \<open>The chain of \<open>or\<close> over the fields of a row, from left to right.\<close>

fun any_field :: "string \<Rightarrow> sql_value list \<Rightarrow> exception + bool" where
  "any_field search_term [] = Inr False"
| "any_field search_term (v # vs) =
     (case field_contains search_term v of
        Inl e \<Rightarrow> Inl e
      | Inr True \<Rightarrow> Inr True
      | Inr False \<Rightarrow> any_field search_term vs)"

text \<open>
  The loop over the fetched rows: a matching row is appended to the table widget; an
  exception ends the loop and leaves the widget as it is.
\<close>

fun filter_loop :: "string \<Rightarrow> sql_value list list \<Rightarrow> sql_value list list \<Rightarrow> sql_value list list \<times> exception option" where
  "filter_loop search_term [] tree = (tree, None)"
| "filter_loop search_term (row # fetched) tree =
     (case any_field search_term row of
        Inl e \<Rightarrow> (tree, Some e)
      | Inr True \<Rightarrow> filter_loop search_term fetched (tree @ [row])
      | Inr False \<Rightarrow> filter_loop search_term fetched tree)"

definition client_fields :: "string list" where
  "client_fields = [''client_id'', ''name'', ''email'', ''phone'', ''observation'',
                    ''date_added'']"

text \<open>
  \<open>filter_data\<close>: the rows shown in the table widget afterwards, and the exception
  reported, if any.
\<close>

definition filter_data :: "string \<Rightarrow> database \<Rightarrow> sql_value list list \<times> exception option" where
  "filter_data search_text db =
     (let search_term = lower search_text
      in case sql_select ''clients'' client_fields db of
           Inl e \<Rightarrow> ([], Some (OperationalError e))
         | Inr fetched \<Rightarrow> filter_loop search_term fetched [])"

subsection \<open>Budgets (main.py)\<close>

text \<open>\<open>save_budget\<close> of \<open>open_add_budget_dialog\<close> in main.py\<close>

definition add_budget_save_budget :: "string \<Rightarrow> string \<Rightarrow> string \<Rightarrow> string \<Rightarrow> string \<Rightarrow> string \<Rightarrow> nat \<Rightarrow> string \<Rightarrow> database \<Rightarrow> database \<times> outcome" where
  "add_budget_save_budget name email budget_type completion deadline service r today db =
     (if name = ''Digite o nome'' \<or> name = [] then (db, Warning NameRequired)
      else if email \<noteq> ''Digite o email'' \<and> \<not> validate_email email
        then (db, Warning EmailInvalid)
      else
        (let budget_id = generate_budget_id r;
             date_added = today
         in case sql_insert ''budgets''
                   [''budget_id'', ''name'', ''email'', ''date'', ''type'', ''completion'',
                    ''deadline'', ''service'']
                   [Text budget_id, Text name, Text email, Text date_added, Text budget_type,
                    Text completion, Text deadline, Text service] db of
              Inl e \<Rightarrow> (db, Failed (OperationalError e))
            | Inr db' \<Rightarrow> (db', Success)))"

text \<open>
  Pressing "Salvar" in that dialog: as for the clients, each of the six entries has run
  \<open>on_focus_out\<close> with its placeholder before \<open>save_budget\<close> reads it.
\<close>

definition add_budget_dialog_save_budget :: "string \<Rightarrow> string \<Rightarrow> string \<Rightarrow> string \<Rightarrow> string \<Rightarrow> string \<Rightarrow> nat \<Rightarrow> string \<Rightarrow> database \<Rightarrow> database \<times> outcome" where
  "add_budget_dialog_save_budget name_text email_text type_text completion_text deadline_text
     service_text r today db =
     add_budget_save_budget (on_focus_out ''Digite o nome'' name_text)
       (on_focus_out ''Digite o email'' email_text)
       (on_focus_out ''Selecione o tipo'' type_text)
       (on_focus_out ''Selecione a data'' completion_text)
       (on_focus_out ''Digite o prazo'' deadline_text)
       (on_focus_out (''Selecione o servi'' @ [CHR 0xE7] @ ''o'') service_text) r today db"

subsection \<open>Budgets (budget.py)\<close>

text \<open>
  \<open>save_budget\<close> of \<open>open_add_budget_dialog\<close> in budget.py. The statement is
  \<open>INSERT INTO budgets (budget_id, client_id, date, type, completion, deadline, service)
  VALUES (?, (SELECT client_id FROM clients WHERE name=?), ?, ?, ?, ?, ?)\<close>.
\<close>

definition bm_add_budget_save_budget :: "string \<Rightarrow> string \<Rightarrow> string \<Rightarrow> string \<Rightarrow> string \<Rightarrow> nat \<Rightarrow> string \<Rightarrow> database \<Rightarrow> database \<times> outcome" where
  "bm_add_budget_save_budget client_name budget_type completion deadline service r today db =
     (if client_name = ''Digite o nome do cliente'' \<or> client_name = []
        then (db, Warning ClientNameRequired)
      else
        (let budget_id = generate_budget_id r;
             date_added = today;
             cols = [''budget_id'', ''client_id'', ''date'', ''type'', ''completion'',
                     ''deadline'', ''service'']
         in case table_check ''budgets'' cols db of
              Inl e \<Rightarrow> (db, Failed (OperationalError e))
            | Inr _ \<Rightarrow>
                (case sql_scalar_select ''clients'' ''client_id'' ''name'' client_name db of
                   Inl e \<Rightarrow> (db, Failed (OperationalError e))
                 | Inr client_ref \<Rightarrow>
                     (case sql_insert ''budgets'' cols
                             [Text budget_id, client_ref, Text date_added, Text budget_type,
                              Text completion, Text deadline, Text service] db of
                        Inl e \<Rightarrow> (db, Failed (OperationalError e))
                      | Inr db' \<Rightarrow> (db', Success)))))"

text \<open>\<open>save_budget\<close> of \<open>open_edit_budget_dialog\<close> in budget.py\<close>

definition bm_edit_budget_save_budget :: "string \<Rightarrow> string \<Rightarrow> string \<Rightarrow> string \<Rightarrow> string \<Rightarrow> string \<Rightarrow> string \<Rightarrow> database \<Rightarrow> database \<times> outcome" where
  "bm_edit_budget_save_budget budget_id name email budget_type completion deadline service db =
     (if name = ''Digite o nome'' \<or> name = [] then (db, Warning NameRequired)
      else if email \<noteq> ''Digite o email'' \<and> \<not> validate_email email
        then (db, Warning EmailInvalid)
      else
        (case sql_update ''budgets''
                [(''name'', Text name), (''email'', Text email), (''type'', Text budget_type),
                 (''completion'', Text completion), (''deadline'', Text deadline),
                 (''service'', Text service)]
                ''budget_id'' budget_id db of
           Inl e \<Rightarrow> (db, Failed (OperationalError e))
         | Inr db' \<Rightarrow> (db', Success)))"

text \<open>\<open>delete_budget_record\<close>, the same text in budget.py and in main.py\<close>

definition delete_budget_record :: "string option \<Rightarrow> bool \<Rightarrow> database \<Rightarrow> database \<times> outcome" where
  "delete_budget_record selected confirm db =
     (case selected of
        None \<Rightarrow> (db, Warning NoSelection)
      | Some budget_id \<Rightarrow>
          if confirm then
            (case sql_delete ''budgets'' ''budget_id'' budget_id db of
               Inl e \<Rightarrow> (db, Failed (OperationalError e))
             | Inr db' \<Rightarrow> (db', Success))
          else (db, Declined))"

text \<open>
  The text that the table widget holds for a fetched value: the text itself,
  \<open>None\<close> for NULL, the decimal digits of an integer.
\<close>

fun tree_text :: "sql_value \<Rightarrow> string" where
  "tree_text (Text s) = s"
| "tree_text Null = ''None''"
| "tree_text (Integer i) = (if i < 0 then ''-'' @ str_nat (nat (- i)) else str_nat (nat i))"

text \<open>
  \<open>load_budget_data\<close> of budget.py: the rows shown in the table widget afterwards, each
  with the seven values selected, and the exception reported, if any.
\<close>

definition bm_load_budget_data :: "database \<Rightarrow> string list list \<times> exception option" where
  "bm_load_budget_data db =
     (case sql_select ''budgets''
             [''budget_id'', ''client_id'', ''date'', ''type'', ''completion'', ''deadline'',
              ''service''] db of
        Inl e \<Rightarrow> ([], Some (OperationalError e))
      | Inr fetched \<Rightarrow> (map (map tree_text) fetched, None))"

text \<open>
  \<open>open_edit_budget_dialog\<close> of budget.py up to the definition of \<open>save_budget\<close>:
  \<open>selected\<close> holds the values of the selected row of the table widget, if a row is
  selected. The identifier is \<open>item['values'][0]\<close>, and the entries of the dialog are
  filled from the values at 1, 2, 4, 5, 6 and 7; none of these reads is inside a
  \<open>try\<close>.
\<close>

definition bm_open_edit_budget_dialog :: "string list option \<Rightarrow> outcome + (string \<times> string list)" where
  "bm_open_edit_budget_dialog selected =
     (case selected of
        None \<Rightarrow> Inl (Warning NoSelection)
      | Some vals \<Rightarrow>
          (case py_index vals 0 of
             Inl e \<Rightarrow> Inl (Raised e)
           | Inr budget_id \<Rightarrow>
               (case py_indexes vals [1, 2, 4, 5, 6, 7] of
                  Inl e \<Rightarrow> Inl (Raised e)
                | Inr entries \<Rightarrow> Inr (budget_id, entries))))"

text \<open>
  Editing a budget in budget.py: the dialog is opened on the selected row and, once it
  is open, "Salvar" is pressed with the texts \<open>name\<close> to \<open>service\<close> in its entries
  (they start as the values the dialog was filled with).
\<close>

definition bm_edit_budget :: "string list option \<Rightarrow> string \<Rightarrow> string \<Rightarrow> string \<Rightarrow> string \<Rightarrow> string \<Rightarrow> string \<Rightarrow> database \<Rightarrow> database \<times> outcome" where
  "bm_edit_budget selected name email budget_type completion deadline service db =
     (case bm_open_edit_budget_dialog selected of
        Inl out \<Rightarrow> (db, out)
      | Inr (budget_id, entries) \<Rightarrow>
          bm_edit_budget_save_budget budget_id name email budget_type completion deadline
            service db)"

section \<open>Notions the properties are stated with\<close>

text \<open>
  A string has the shape of an email address when it is a non-empty local part, an
  \<open>@\<close>, a non-empty domain label, a dot and a non-empty rest, each part made of the
  characters its class of \<open>EMAIL_REGEX\<close> allows, and nothing else.
\<close>

definition matches_email_pattern :: "string \<Rightarrow> bool" where
  "matches_email_pattern s =
     (\<exists>l d t. s = l @ ''@'' @ d @ ''.'' @ t \<and> l \<noteq> [] \<and> d \<noteq> [] \<and> t \<noteq> [] \<and>
        list_all (accepts local_class) l \<and> list_all (accepts domain_class) d \<and>
        list_all (accepts suffix_class) t)"

text \<open>
  A client record as the listing shows it: the six fields of a row, in the order of
  \<open>client_fields\<close>. A field matches a search text when it is text whose lowercased
  form contains the lowercased search text; a record matches when one of its fields
  does.
\<close>

definition client_record :: "row \<Rightarrow> sql_value list" where
  "client_record r = map (cell r) client_fields"

definition is_text :: "sql_value \<Rightarrow> bool" where
  "is_text v = (case v of Text s \<Rightarrow> True | _ \<Rightarrow> False)"

definition field_matches :: "string \<Rightarrow> sql_value \<Rightarrow> bool" where
  "field_matches search_text v =
     (\<exists>s pre suf. v = Text s \<and> lower s = pre @ lower search_text @ suf)"

definition record_matches :: "string \<Rightarrow> sql_value list \<Rightarrow> bool" where
  "record_matches search_text record = (\<exists>v \<in> set record. field_matches search_text v)"

text \<open>The columns that the insert statement of budget.py names.\<close>

definition budget_fields :: "string list" where
  "budget_fields = [''budget_id'', ''client_id'', ''date'', ''type'', ''completion'',
                    ''deadline'', ''service'']"

subsection \<open>Two stores used as examples\<close>

definition ana_row :: row where
  "ana_row = [''id'' \<mapsto> Integer 1, ''client_id'' \<mapsto> Text ''AUT-1234'', ''name'' \<mapsto> Text ''Ana'',
              ''email'' \<mapsto> Text ''ana@x.com'', ''phone'' \<mapsto> Text ''(11) 9 8765-4321'',
              ''observation'' \<mapsto> Text ''first client'', ''date_added'' \<mapsto> Text ''01/11/2026'']"

definition bruno_row :: row where
  "bruno_row = [''id'' \<mapsto> Integer 2, ''client_id'' \<mapsto> Text ''AUT-5321'',
                ''name'' \<mapsto> Text ''Bruno'', ''email'' \<mapsto> Text ''Digite o email'',
                ''phone'' \<mapsto> Text ''(XX) X XXXX-XXXX'', ''observation'' \<mapsto> Text [],
                ''date_added'' \<mapsto> Text ''02/11/2026'']"

definition carla_row :: row where
  "carla_row = [''id'' \<mapsto> Integer 3, ''client_id'' \<mapsto> Text ''AUT-1007'',
                ''name'' \<mapsto> Text ''Carla'', ''email'' \<mapsto> Text ''carla@x.com'',
                ''phone'' \<mapsto> Text ''(11) 9 1111-2222'', ''observation'' \<mapsto> Text ''vip'',
                ''date_added'' \<mapsto> Text ''03/11/2026'']"

definition example_clients :: table where
  "example_clients =
     \<lparr>columns = clients_columns, rows = [ana_row, bruno_row, carla_row], last_id = 3\<rparr>"

text \<open>The store after main.py has created it and three clients were added.\<close>

definition example_db :: database where
  "example_db = [''clients'' \<mapsto> example_clients,
                 ''budgets'' \<mapsto> \<lparr>columns = budgets_columns_main, rows = [], last_id = 0\<rparr>]"

definition logo_row :: row where
  "logo_row = [''id'' \<mapsto> Integer 1, ''budget_id'' \<mapsto> Text ''ART-1000'',
               ''client_id'' \<mapsto> Text ''AUT-1234'', ''date'' \<mapsto> Text ''03/11/2026'',
               ''type'' \<mapsto> Text ''Logo'', ''completion'' \<mapsto> Text ''10/12/2026'',
               ''deadline'' \<mapsto> Text ''30 dias'', ''service'' \<mapsto> Text ''Design'']"

definition example_budgets :: table where
  "example_budgets = \<lparr>columns = budgets_columns_budget, rows = [logo_row], last_id = 1\<rparr>"

text \<open>
  The store after budget.py has created it, the three clients were added and a budget
  was added for the client named Ana.
\<close>

definition example_budget_db :: database where
  "example_budget_db = [''clients'' \<mapsto> example_clients,
                        ''budgets'' \<mapsto> example_budgets,
                        ''users'' \<mapsto> \<lparr>columns = users_columns, rows = [], last_id = 0\<rparr>]"

text \<open>
  A store from before the columns \<open>client_id\<close> and \<open>date_added\<close> existed: a clients
  table without them, holding one client. \<open>init_database\<close> adds the two columns to it.
\<close>

definition legacy_row :: row where
  "legacy_row = [''id'' \<mapsto> Integer 1, ''name'' \<mapsto> Text ''Ana'', ''email'' \<mapsto> Text ''ana@x.com'',
                 ''phone'' \<mapsto> Text ''(11) 9 8765-4321'', ''observation'' \<mapsto> Text ''first client'']"

definition legacy_db :: database where
  "legacy_db = [''clients'' \<mapsto>
                  \<lparr>columns = [''id'', ''name'', ''email'', ''phone'', ''observation''],
                   rows = [legacy_row], last_id = 1\<rparr>]"

definition migrated_row :: row where
  "migrated_row = legacy_row(''client_id'' \<mapsto> Null, ''date_added'' \<mapsto> Null)"

definition migrated_db :: database where
  "migrated_db = [''clients'' \<mapsto>
                    \<lparr>columns = [''id'', ''name'', ''email'', ''phone'', ''observation'',
                                ''client_id'', ''date_added''],
                     rows = [migrated_row], last_id = 1\<rparr>,
                  ''budgets'' \<mapsto> \<lparr>columns = budgets_columns_main, rows = [], last_id = 0\<rparr>]"


section \<open>Properties of the phone formatter\<close>

lemma format_phone_entry_render:
  "format_phone_entry text = render_phone (filter is_digit text)"
  by (simp add: format_phone_entry_def render_phone_def re_sub_non_digits_def Let_def)

lemma separators_not_digits:
  "\<not> is_digit CHR ''(''" "\<not> is_digit CHR '')''" "\<not> is_digit CHR '' ''"
  "\<not> is_digit CHR ''-''"
  by (simp_all add: is_digit_def)

lemma digits_of_render_phone:
  assumes "\<forall>c\<in>set ds. is_digit c"
  shows "filter is_digit (render_phone ds) = take 11 ds"
proof -
  have t: "filter is_digit (take n (drop m ds)) = take n (drop m ds)" for n m
    using assms by (metis filter_True in_set_dropD in_set_takeD)
  have t0: "filter is_digit (take n ds) = take n ds" for n
    using t[of _ 0] by simp
  have fd: "filter is_digit (drop m ds) = drop m ds" for m
    using assms by (metis filter_True in_set_dropD)
  have f: "filter is_digit ds = ds"
    using assms by simp
  have a3: "take 2 ds @ take 1 (drop 2 ds) = take 3 ds"
    using take_add[of 2 1 ds] by simp
  have a7: "take 3 ds @ take 4 (drop 3 ds) = take 7 ds"
    using take_add[of 3 4 ds] by simp
  have a11: "take 7 ds @ take 4 (drop 7 ds) = take 11 ds"
    using take_add[of 7 4 ds] by simp
  have pieces: "filter is_digit (render_phone ds) =
     (if length ds > 7
        then take 2 ds @ take 1 (drop 2 ds) @ take 4 (drop 3 ds) @ take 4 (drop 7 ds)
      else if length ds > 3 then take 2 ds @ take 1 (drop 2 ds) @ take 4 (drop 3 ds)
      else if length ds > 2 then take 2 ds @ take 1 (drop 2 ds)
      else take 2 ds)"
    by (simp add: render_phone_def py_slice_def separators_not_digits t t0 fd f Let_def)
  have joined: "filter is_digit (render_phone ds) =
     (if length ds > 7 then take 11 ds
      else if length ds > 3 then take 7 ds
      else if length ds > 2 then take 3 ds
      else take 2 ds)"
    unfolding pieces by (simp only: append_assoc[symmetric] a3 a7 a11)
  show ?thesis unfolding joined by simp
qed

lemma digits_of_format_phone_entry:
  "filter is_digit (format_phone_entry text) = take 11 (filter is_digit text)"
  by (simp add: format_phone_entry_render digits_of_render_phone)

lemma render_phone_take_11: "render_phone (take 11 ds) = render_phone ds"
proof (cases "length ds \<le> 11")
  case True
  then show ?thesis by simp
next
  case False
  then have "ds \<noteq> []" by auto
  with False show ?thesis
    by (simp add: render_phone_def py_slice_def Let_def take_drop)
qed

text \<open>
  C6. The phone formatter is idempotent: formatting its own output gives that output
  again, for every input text; and the formatted text \<open>(11) 9 8765-4321\<close> is
  returned as it is.
\<close>

theorem format_phone_entry_idempotent:
  "format_phone_entry (format_phone_entry text) = format_phone_entry text \<and>
   format_phone_entry ''(11) 9 8765-4321'' = ''(11) 9 8765-4321''"
proof
  show "format_phone_entry (format_phone_entry text) = format_phone_entry text"
    by (simp add: format_phone_entry_render digits_of_render_phone render_phone_take_11)
  show "format_phone_entry ''(11) 9 8765-4321'' = ''(11) 9 8765-4321''"
    by (simp add: format_phone_entry_def re_sub_non_digits_def is_digit_def py_slice_def)
qed

theorem format_phone_entry_idempotent_witness:
  "format_phone_entry (format_phone_entry ''11987654321'') = format_phone_entry ''11987654321'' \<and>
   format_phone_entry ''11987654321'' = ''(11) 9 8765-4321''"
  using format_phone_entry_idempotent [of "''11987654321''"]
  by (simp add: format_phone_entry_def re_sub_non_digits_def is_digit_def py_slice_def)

text \<open>
  C10. The digits of the formatted text are the first \<open>min n 11\<close> digits of the input,
  in order, where \<open>n\<close> is the number of digits of the input: digits after the
  eleventh are dropped.
\<close>

theorem format_phone_entry_digits:
  "filter is_digit (format_phone_entry text) =
     take (min (length (filter is_digit text)) 11) (filter is_digit text)"
  by (simp add: digits_of_format_phone_entry min_def)

theorem format_phone_entry_digits_witness:
  "filter is_digit (format_phone_entry ''+55 (11) 98765-4321 99'') = ''55119876543''"
  using format_phone_entry_digits [of "''+55 (11) 98765-4321 99''"]
  by (simp add: is_digit_def)

section \<open>Properties of the identifier generators\<close>

lemma str_nat_4:
  assumes "1000 \<le> n" "n \<le> 9999"
  shows "str_nat n = [digit_char (n div 1000), digit_char (n div 100 mod 10),
                      digit_char (n div 10 mod 10), digit_char (n mod 10)]"
proof -
  have d: "n div 10 div 10 = n div 100" "n div 10 div 10 div 10 = n div 1000"
    by (simp_all add: div_mult2_eq[symmetric])
  have "str_nat n = str_nat (n div 10) @ [digit_char (n mod 10)]"
    using assms by (subst str_nat.simps) simp
  also have "str_nat (n div 10) = str_nat (n div 100) @ [digit_char (n div 10 mod 10)]"
    using assms d by (subst str_nat.simps) simp
  also have "str_nat (n div 100) = str_nat (n div 1000) @ [digit_char (n div 100 mod 10)]"
    using assms d by (subst str_nat.simps) (simp flip: d(1))
  also have "str_nat (n div 1000) = [digit_char (n div 1000)]"
    using assms by (subst str_nat.simps) simp
  finally show ?thesis by simp
qed

lemma digit_char_is_digit: "d < 10 \<Longrightarrow> is_digit (digit_char d)"
proof -
  assume "d < 10"
  then have "d \<in> set [0, 1, 2, 3, 4, 5, 6, 7, 8, 9]" by auto
  then show ?thesis by (auto simp: digit_char_def is_digit_def)
qed

lemma digit_char_inj: "a < 10 \<Longrightarrow> b < 10 \<Longrightarrow> digit_char a = digit_char b \<Longrightarrow> a = b"
proof -
  assume "a < 10" "b < 10" and e: "digit_char a = digit_char b"
  then have "a \<in> set [0, 1, 2, 3, 4, 5, 6, 7, 8, 9]" "b \<in> set [0, 1, 2, 3, 4, 5, 6, 7, 8, 9]"
    by auto
  with e show ?thesis by (auto simp: digit_char_def)
qed

lemma decimal_4:
  "(n::nat) = 1000 * (n div 1000) + 100 * (n div 100 mod 10) + 10 * (n div 10 mod 10) + n mod 10"
proof -
  have a: "n = 10 * (n div 10) + n mod 10" by simp
  have b: "n div 10 = 10 * (n div 100) + n div 10 mod 10"
    using div_mult_mod_eq[of "n div 10" 10] by (simp add: div_mult2_eq[symmetric])
  have c: "n div 100 = 10 * (n div 1000) + n div 100 mod 10"
    using div_mult_mod_eq[of "n div 100" 10] by (simp add: div_mult2_eq[symmetric])
  show ?thesis using a b c by linarith
qed

lemma str_nat_inj_4:
  assumes "1000 \<le> n" "n \<le> 9999" "1000 \<le> m" "m \<le> 9999" "str_nat n = str_nat m"
  shows "n = m"
proof -
  have e: "[digit_char (n div 1000), digit_char (n div 100 mod 10),
            digit_char (n div 10 mod 10), digit_char (n mod 10)] =
           [digit_char (m div 1000), digit_char (m div 100 mod 10),
            digit_char (m div 10 mod 10), digit_char (m mod 10)]"
    using assms by (simp add: str_nat_4)
  have bn: "n div 1000 < 10" "m div 1000 < 10" using assms by auto
  have "n div 1000 = m div 1000" "n div 100 mod 10 = m div 100 mod 10"
       "n div 10 mod 10 = m div 10 mod 10" "n mod 10 = m mod 10"
    using e bn by (auto intro: digit_char_inj)
  then show ?thesis
    using decimal_4[of n] decimal_4[of m] by simp
qed

lemma str_nat_4_digits:
  assumes "1000 \<le> n" "n \<le> 9999"
  shows "length (str_nat n) = 4 \<and> list_all is_digit (str_nat n)"
proof -
  have "n div 1000 < 10" using assms by auto
  then show ?thesis using assms by (simp add: str_nat_4 digit_char_is_digit)
qed

lemma outcomes_one:
  assumes "r < 9000" "\<And>a b. a < 9000 \<Longrightarrow> b < 9000 \<Longrightarrow> gen a = gen b \<Longrightarrow> a = b"
  shows "outcomes gen (gen r) = 1"
proof -
  have "{a \<in> {..<9000}. gen a = gen r} = {r}"
    using assms by auto
  then show ?thesis by (simp add: outcomes_def)
qed

lemma generate_client_id_inj:
  "a < 9000 \<Longrightarrow> b < 9000 \<Longrightarrow> generate_client_id a = generate_client_id b \<Longrightarrow> a = b"
  using str_nat_inj_4[of "a + 1000" "b + 1000"] by (simp add: generate_client_id_def)

lemma generate_budget_id_inj:
  "a < 9000 \<Longrightarrow> b < 9000 \<Longrightarrow> generate_budget_id a = generate_budget_id b \<Longrightarrow> a = b"
  using str_nat_inj_4[of "a + 1000" "b + 1000"] by (simp add: generate_budget_id_def)

text \<open>
  C5. Every identifier that \<open>generate_client_id\<close> returns is \<open>AUT-\<close> followed by
  the four decimal digits of a number between 1000 and 9999, and every identifier that
  \<open>generate_budget_id\<close> returns is \<open>ART-\<close> followed by such digits. The number is
  the outcome \<open>r\<close> of \<open>secrets.randbelow(9000)\<close> plus 1000; each identifier comes
  from exactly one of the 9000 equally likely outcomes, and every number \<open>n\<close> between
  1000 and 9999 is reached, so the 9000 values are equally likely.
\<close>

theorem generated_ids_four_digits_uniform:
  assumes "r < 9000" and "1000 \<le> n" and "n \<le> 9999"
  shows "generate_client_id r = ''AUT-'' @ str_nat (r + 1000) \<and>
         generate_budget_id r = ''ART-'' @ str_nat (r + 1000) \<and>
         1000 \<le> r + 1000 \<and> r + 1000 \<le> 9999 \<and>
         length (str_nat (r + 1000)) = 4 \<and> list_all is_digit (str_nat (r + 1000)) \<and>
         str_nat (r + 1000) =
           [digit_char ((r + 1000) div 1000), digit_char ((r + 1000) div 100 mod 10),
            digit_char ((r + 1000) div 10 mod 10), digit_char ((r + 1000) mod 10)] \<and>
         outcomes generate_client_id (generate_client_id r) = 1 \<and>
         outcomes generate_budget_id (generate_budget_id r) = 1 \<and>
         outcomes generate_client_id (''AUT-'' @ str_nat n) = 1 \<and>
         outcomes generate_budget_id (''ART-'' @ str_nat n) = 1"
proof -
  have range: "1000 \<le> r + 1000" "r + 1000 \<le> 9999"
    using assms(1) by simp_all
  have c: "outcomes generate_client_id (generate_client_id r) = 1"
    using assms(1) generate_client_id_inj by (rule outcomes_one)
  have b: "outcomes generate_budget_id (generate_budget_id r) = 1"
    using assms(1) generate_budget_id_inj by (rule outcomes_one)
  have n: "n - 1000 < 9000" "n - 1000 + 1000 = n"
    using assms(2,3) by simp_all
  have cn: "outcomes generate_client_id (generate_client_id (n - 1000)) = 1"
    using n(1) generate_client_id_inj by (rule outcomes_one)
  have bn: "outcomes generate_budget_id (generate_budget_id (n - 1000)) = 1"
    using n(1) generate_budget_id_inj by (rule outcomes_one)
  show ?thesis
    using range str_nat_4[OF range] str_nat_4_digits[OF range] c b cn bn n(2)
    by (simp add: generate_client_id_def generate_budget_id_def)
qed

theorem generated_ids_four_digits_uniform_witness:
  "(234::nat) < 9000 \<and> (9999::nat) \<le> 9999 \<and>
   generate_client_id 234 = ''AUT-1234'' \<and> generate_budget_id 234 = ''ART-1234'' \<and>
   outcomes generate_client_id ''AUT-1234'' = 1 \<and>
   outcomes generate_budget_id ''ART-9999'' = 1"
  using generated_ids_four_digits_uniform [of 234 9999]
  by (simp add: generate_client_id_def generate_budget_id_def str_nat_4 digit_char_def)

section \<open>Properties of the email check\<close>

lemma re_match_Plus:
  "re_match (Plus a # p) b s \<longleftrightarrow>
     (\<exists>u v. s = u @ v \<and> u \<noteq> [] \<and> list_all (accepts a) u \<and> re_match p False v)"
proof (induction s arbitrary: b)
  case Nil
  then show ?case by simp
next
  case (Cons c s)
  show ?case
  proof
    assume "re_match (Plus a # p) b (c # s)"
    then have ac: "accepts a c" and alt: "re_match (Plus a # p) False s \<or> re_match p False s"
      by simp_all
    from alt show "\<exists>u v. c # s = u @ v \<and> u \<noteq> [] \<and> list_all (accepts a) u \<and> re_match p False v"
    proof
      assume "re_match (Plus a # p) False s"
      then obtain u v where "s = u @ v" "u \<noteq> []" "list_all (accepts a) u" "re_match p False v"
        using Cons.IH by blast
      then have "c # s = (c # u) @ v \<and> c # u \<noteq> [] \<and> list_all (accepts a) (c # u) \<and>
                 re_match p False v"
        using ac by simp
      then show ?thesis by blast
    next
      assume "re_match p False s"
      then have "c # s = [c] @ s \<and> [c] \<noteq> [] \<and> list_all (accepts a) [c] \<and> re_match p False s"
        using ac by simp
      then show ?thesis by blast
    qed
  next
    assume "\<exists>u v. c # s = u @ v \<and> u \<noteq> [] \<and> list_all (accepts a) u \<and> re_match p False v"
    then obtain u v where
      uv: "c # s = u @ v" "u \<noteq> []" "list_all (accepts a) u" "re_match p False v"
      by blast
    then obtain u' where u: "u = c # u'" by (cases u) auto
    with uv have s: "s = u' @ v" and ac: "accepts a c" and au: "list_all (accepts a) u'"
      by simp_all
    show "re_match (Plus a # p) b (c # s)"
    proof (cases "u' = []")
      case True
      with s uv(4) ac show ?thesis by simp
    next
      case False
      with s au uv(4) have "re_match (Plus a # p) False s" using Cons.IH by blast
      with ac show ?thesis by simp
    qed
  qed
qed

lemma re_match_One_Lit:
  "re_match (One (Lit x) # p) b s \<longleftrightarrow> (\<exists>v. s = x # v \<and> re_match p False v)"
  by (cases s) auto

lemma re_match_Eol: "re_match [Eol] b s \<longleftrightarrow> s = [] \<or> s = [CHR 0x0A]"
  by simp

lemma validate_email_split:
  "validate_email s \<longleftrightarrow>
     (\<exists>l d t e. s = l @ CHR ''@'' # d @ CHR ''.'' # t @ e \<and> l \<noteq> [] \<and> d \<noteq> [] \<and> t \<noteq> [] \<and>
        list_all (accepts local_class) l \<and> list_all (accepts domain_class) d \<and>
        list_all (accepts suffix_class) t \<and> (e = [] \<or> e = [CHR 0x0A]))"
  unfolding validate_email_def EMAIL_REGEX_def
  by (simp only: re_match.simps(2) re_match_Plus re_match_One_Lit re_match_Eol) blast

text \<open>
  What \<open>validate_email\<close> accepts: the strings of the email shape, and those strings
  followed by one newline.
\<close>

lemma validate_email_iff:
  "validate_email s \<longleftrightarrow>
     matches_email_pattern s \<or> (\<exists>u. s = u @ [CHR 0x0A] \<and> matches_email_pattern u)"
proof
  assume "validate_email s"
  then obtain l d t e where
    s: "s = l @ CHR ''@'' # d @ CHR ''.'' # t @ e" and
    p: "l \<noteq> []" "d \<noteq> []" "t \<noteq> []" "list_all (accepts local_class) l"
       "list_all (accepts domain_class) d" "list_all (accepts suffix_class) t" and
    e: "e = [] \<or> e = [CHR 0x0A]"
    unfolding validate_email_split by blast
  have m: "matches_email_pattern (l @ ''@'' @ d @ ''.'' @ t)"
    unfolding matches_email_pattern_def using p by blast
  from e show "matches_email_pattern s \<or> (\<exists>u. s = u @ [CHR 0x0A] \<and> matches_email_pattern u)"
  proof
    assume "e = []"
    with s m show ?thesis by simp
  next
    assume "e = [CHR 0x0A]"
    with s have "s = (l @ ''@'' @ d @ ''.'' @ t) @ [CHR 0x0A]" by simp
    with m show ?thesis by blast
  qed
next
  assume "matches_email_pattern s \<or> (\<exists>u. s = u @ [CHR 0x0A] \<and> matches_email_pattern u)"
  then obtain u e where s: "s = u @ e" and e: "e = [] \<or> e = [CHR 0x0A]"
    and m: "matches_email_pattern u"
    by auto
  from m obtain l d t where
    u: "u = l @ ''@'' @ d @ ''.'' @ t" and
    p: "l \<noteq> []" "d \<noteq> []" "t \<noteq> []" "list_all (accepts local_class) l"
       "list_all (accepts domain_class) d" "list_all (accepts suffix_class) t"
    unfolding matches_email_pattern_def by blast
  have "s = l @ CHR ''@'' # d @ CHR ''.'' # t @ e"
    using s u by simp
  with p e show "validate_email s"
    unfolding validate_email_split by blast
qed

lemma newline_not_in_suffix_class: "\<not> accepts suffix_class (CHR 0x0A)"
  by (simp add: suffix_class_def)

lemma not_matches_email_pattern_newline: "\<not> matches_email_pattern (u @ [CHR 0x0A])"
proof
  assume "matches_email_pattern (u @ [CHR 0x0A])"
  then obtain l d t where
    u: "u @ [CHR 0x0A] = l @ ''@'' @ d @ ''.'' @ t" and t: "t \<noteq> []"
    "list_all (accepts suffix_class) t"
    unfolding matches_email_pattern_def by blast
  from t(1) have "last (l @ ''@'' @ d @ ''.'' @ t) = last t" by simp
  with u have "last t = CHR 0x0A" by (metis last_snoc)
  with t have "accepts suffix_class (CHR 0x0A)"
    by (metis last_in_set list_all_iff)
  then show False by (simp add: newline_not_in_suffix_class)
qed

lemma validate_email_examples:
  "validate_email ''ana@x.com''" "validate_email ''carla@x.com''"
  "validate_email ''maria@x.com''" "\<not> validate_email []"
  "\<not> validate_email ''Digite o email''" "\<not> validate_email ''maria.x.com''"
  by (simp_all add: validate_email_def EMAIL_REGEX_def local_class_def domain_class_def
        suffix_class_def)

text \<open>
  C8. \<open>validate_email\<close> is meant to hold exactly for the strings of the email shape.
  It also holds for such a string followed by a newline: the text \<open>a@b.c\<close> with a
  newline appended is accepted, and it does not have the shape.
\<close>

theorem validate_email_accepts_trailing_newline:
  "validate_email (''a@b.c'' @ [CHR 0x0A]) \<and> \<not> matches_email_pattern (''a@b.c'' @ [CHR 0x0A])"
proof
  show "validate_email (''a@b.c'' @ [CHR 0x0A])"
    by (simp add: validate_email_def EMAIL_REGEX_def local_class_def domain_class_def
          suffix_class_def)
  show "\<not> matches_email_pattern (''a@b.c'' @ [CHR 0x0A])"
    by (rule not_matches_email_pattern_newline)
qed

lemma add_client_next_step_cases:
  "add_client_next_step name email phone =
     (if name = [] \<or> name = ''Digite o nome'' then Inl NameRequired
      else if email = ''Digite o email'' \<or> validate_email email then Inr (name, email, phone)
      else Inl EmailInvalid)"
  by (auto simp: add_client_next_step_def)

lemma add_budget_save_budget_rejects:
  "email \<noteq> ''Digite o email'' \<Longrightarrow> \<not> validate_email email \<Longrightarrow>
   \<exists>w. add_budget_save_budget name email budget_type completion deadline service r today db =
         (db, Warning w)"
  by (simp add: add_budget_save_budget_def)

section \<open>Properties of the statements\<close>

lemma fold_name_names:
  "fold_name ''clients'' = ''clients''" "fold_name ''budgets'' = ''budgets''"
  "fold_name ''users'' = ''users''" "fold_name ''id'' = ''id''"
  "fold_name ''client_id'' = ''client_id''" "fold_name ''name'' = ''name''"
  "fold_name ''email'' = ''email''" "fold_name ''phone'' = ''phone''"
  "fold_name ''observation'' = ''observation''" "fold_name ''date_added'' = ''date_added''"
  "fold_name ''budget_id'' = ''budget_id''" "fold_name ''date'' = ''date''"
  "fold_name ''type'' = ''type''" "fold_name ''completion'' = ''completion''"
  "fold_name ''deadline'' = ''deadline''" "fold_name ''service'' = ''service''"
  "fold_name ''username'' = ''username''" "fold_name ''password'' = ''password''"
  by (simp_all add: fold_name_def fold_char_def)

lemma has_column_member: "c \<in> set (columns t) \<Longrightarrow> has_column t c"
  by (simp add: has_column_def)

lemma table_check_ok:
  assumes "db name = Some t" and "fold_name name = name" and "set cols \<subseteq> set (columns t)"
  shows "table_check name cols db = Inr t"
proof -
  have "filter (\<lambda>c. \<not> has_column t c) cols = []"
    using assms(3) by (auto simp: filter_empty_conv has_column_member)
  with assms(1,2) show ?thesis by (simp add: table_check_def)
qed


lemma sql_insert_ok:
  assumes "db name = Some t" and "fold_name name = name" and "set cols \<subseteq> set (columns t)"
  shows "sql_insert name cols vals db =
           Inr (db(name \<mapsto> t\<lparr>rows := rows t @ [new_row t cols vals],
                                 last_id := last_id t + 1\<rparr>))"
  using assms by (simp add: sql_insert_def table_check_ok)

lemma sql_update_ok:
  assumes "db name = Some t" and "fold_name name = name"
    and "set (map fst sets @ [wcol]) \<subseteq> set (columns t)"
  shows "sql_update name sets wcol v db =
           Inr (db(name \<mapsto>
                   t\<lparr>rows := map (\<lambda>x. if x (fold_name wcol) = Some (Text v)
                                        then x ++ map_of (map (\<lambda>(c, y). (fold_name c, y)) sets)
                                        else x) (rows t)\<rparr>))"
  using assms by (simp add: sql_update_def table_check_ok)

lemma sql_delete_ok:
  assumes "db name = Some t" and "fold_name name = name" and "wcol \<in> set (columns t)"
  shows "sql_delete name wcol v db =
           Inr (db(name \<mapsto>
                   t\<lparr>rows := filter (\<lambda>x. x (fold_name wcol) \<noteq> Some (Text v)) (rows t)\<rparr>))"
  using assms by (simp add: sql_delete_def table_check_ok)

lemma sql_delete_absent:
  assumes "db name = Some t" and "fold_name name = name" and "wcol \<in> set (columns t)"
    and "\<forall>x \<in> set (rows t). x (fold_name wcol) \<noteq> Some (Text v)"
  shows "sql_delete name wcol v db = Inr db"
proof -
  have "filter (\<lambda>x. x (fold_name wcol) \<noteq> Some (Text v)) (rows t) = rows t"
    using assms(4) by (simp add: filter_id_conv)
  then have "db(name \<mapsto> t\<lparr>rows := filter (\<lambda>x. x (fold_name wcol) \<noteq> Some (Text v))
                                            (rows t)\<rparr>) = db"
    using assms(1) by (simp add: map_upd_triv)
  then show ?thesis using assms(1,2,3) by (simp add: sql_delete_ok)
qed

lemma sql_delete_twice:
  assumes "db name = Some t" and "fold_name name = name" and "wcol \<in> set (columns t)"
    and "sql_delete name wcol v db = Inr db1"
  shows "sql_delete name wcol v db1 = Inr db1"
proof -
  let ?t1 = "t\<lparr>rows := filter (\<lambda>x. x (fold_name wcol) \<noteq> Some (Text v)) (rows t)\<rparr>"
  have db1: "db1 = db(name \<mapsto> ?t1)"
    using assms by (simp add: sql_delete_ok)
  have "db1 name = Some ?t1" "fold_name name = name" "wcol \<in> set (columns ?t1)"
       "\<forall>x \<in> set (rows ?t1). x (fold_name wcol) \<noteq> Some (Text v)"
    using assms(2,3) by (simp_all add: db1)
  then show ?thesis by (rule sql_delete_absent)
qed

lemma first_of_filter:
  "(case filter P xs of [] \<Rightarrow> a | x # _ \<Rightarrow> f x) =
   (case find P xs of None \<Rightarrow> a | Some x \<Rightarrow> f x)"
  by (induction xs) simp_all

subsection \<open>The example stores are stores the application builds\<close>

lemma generate_id_examples:
  "generate_client_id 234 = ''AUT-1234''" "generate_client_id 4321 = ''AUT-5321''"
  "generate_client_id 7 = ''AUT-1007''" "generate_budget_id 0 = ''ART-1000''"
  by (simp_all add: generate_client_id_def generate_budget_id_def str_nat_4 digit_char_def)

lemma strip_examples:
  "strip '' first client '' = ''first client''" "strip ''vip'' = ''vip''" "strip [] = []"
  "strip ''  vip client  '' = ''vip client''"
  by (simp_all add: strip_def is_space_def)

lemma init_clients_empty:
  "init_clients Map.empty =
     Inr [''clients'' \<mapsto> \<lparr>columns = clients_columns, rows = [], last_id = 0\<rparr>]"
  by (simp add: init_clients_def create_table_if_not_exists_def pragma_table_info_def
        clients_columns_def Let_def fold_name_names)

lemma init_database_main_empty:
  "init_database_main Map.empty =
     Inr [''clients'' \<mapsto> \<lparr>columns = clients_columns, rows = [], last_id = 0\<rparr>,
          ''budgets'' \<mapsto> \<lparr>columns = budgets_columns_main, rows = [], last_id = 0\<rparr>]"
  by (simp add: init_database_main_def init_clients_empty create_table_if_not_exists_def
        fold_name_names)

lemma init_database_budget_empty:
  "init_database_budget Map.empty =
     Inr [''clients'' \<mapsto> \<lparr>columns = clients_columns, rows = [], last_id = 0\<rparr>,
          ''budgets'' \<mapsto> \<lparr>columns = budgets_columns_budget, rows = [], last_id = 0\<rparr>,
          ''users'' \<mapsto> \<lparr>columns = users_columns, rows = [], last_id = 0\<rparr>]"
  by (simp add: init_database_budget_def init_clients_empty create_table_if_not_exists_def
        fold_name_names)

lemma new_row_ana:
  "new_row \<lparr>columns = clients_columns, rows = rs, last_id = 0\<rparr>
     [''client_id'', ''name'', ''email'', ''phone'', ''observation'', ''date_added'']
     [Text ''AUT-1234'', Text ''Ana'', Text ''ana@x.com'', Text ''(11) 9 8765-4321'',
      Text ''first client'', Text ''01/11/2026''] = ana_row"
  by (rule ext) (simp add: new_row_def ana_row_def clients_columns_def restrict_map_def
       map_add_def fold_name_names)

lemma new_row_bruno:
  "new_row \<lparr>columns = clients_columns, rows = rs, last_id = 1\<rparr>
     [''client_id'', ''name'', ''email'', ''phone'', ''observation'', ''date_added'']
     [Text ''AUT-5321'', Text ''Bruno'', Text ''Digite o email'', Text ''(XX) X XXXX-XXXX'',
      Text [], Text ''02/11/2026''] = bruno_row"
  by (rule ext) (simp add: new_row_def bruno_row_def clients_columns_def restrict_map_def
       map_add_def fold_name_names)

lemma new_row_carla:
  "new_row \<lparr>columns = clients_columns, rows = rs, last_id = 2\<rparr>
     [''client_id'', ''name'', ''email'', ''phone'', ''observation'', ''date_added'']
     [Text ''AUT-1007'', Text ''Carla'', Text ''carla@x.com'', Text ''(11) 9 1111-2222'',
      Text ''vip'', Text ''03/11/2026''] = carla_row"
  by (rule ext) (simp add: new_row_def carla_row_def clients_columns_def restrict_map_def
       map_add_def fold_name_names)

lemma add_three_clients:
  assumes "db ''clients'' = Some \<lparr>columns = clients_columns, rows = [], last_id = 0\<rparr>"
  shows "fst (add_client ''Carla'' ''carla@x.com'' ''(11) 9 1111-2222'' ''vip'' 7 ''03/11/2026''
           (fst (add_client ''Bruno'' ''Digite o email'' ''(XX) X XXXX-XXXX'' [] 4321 ''02/11/2026''
             (fst (add_client ''Ana'' ''ana@x.com'' ''(11) 9 8765-4321'' '' first client '' 234
                     ''01/11/2026'' db))))) =
         db(''clients'' \<mapsto> example_clients)"
proof -
  let ?cols = "[''client_id'', ''name'', ''email'', ''phone'', ''observation'', ''date_added'']"
  have c: "set ?cols \<subseteq> set clients_columns"
    by (simp add: clients_columns_def)
  let ?t1 = "\<lparr>columns = clients_columns, rows = [ana_row], last_id = 1\<rparr>"
  let ?t2 = "\<lparr>columns = clients_columns, rows = [ana_row, bruno_row], last_id = 2\<rparr>"
  have 1: "add_client ''Ana'' ''ana@x.com'' ''(11) 9 8765-4321'' '' first client '' 234
             ''01/11/2026'' db = (db(''clients'' \<mapsto> ?t1), Success)"
    using assms c
    by (simp add: add_client_def add_client_next_step_def add_client_save_client_def
          validate_email_examples strip_examples generate_id_examples sql_insert_ok new_row_ana fold_name_names)
  have 2: "add_client ''Bruno'' ''Digite o email'' ''(XX) X XXXX-XXXX'' [] 4321 ''02/11/2026''
             (db(''clients'' \<mapsto> ?t1)) = (db(''clients'' \<mapsto> ?t2), Success)"
    using c
    by (simp add: add_client_def add_client_next_step_def add_client_save_client_def
          strip_examples generate_id_examples sql_insert_ok new_row_bruno fold_name_names)
  have 3: "add_client ''Carla'' ''carla@x.com'' ''(11) 9 1111-2222'' ''vip'' 7 ''03/11/2026''
             (db(''clients'' \<mapsto> ?t2)) = (db(''clients'' \<mapsto> example_clients), Success)"
    using c
    by (simp add: add_client_def add_client_next_step_def add_client_save_client_def
          validate_email_examples strip_examples generate_id_examples sql_insert_ok
          new_row_carla example_clients_def fold_name_names)
  show ?thesis by (simp add: 1 2 3)
qed

lemma example_db_built:
  "\<exists>db0. init_database_main Map.empty = Inr db0 \<and>
     fst (add_client ''Carla'' ''carla@x.com'' ''(11) 9 1111-2222'' ''vip'' 7 ''03/11/2026''
       (fst (add_client ''Bruno'' ''Digite o email'' ''(XX) X XXXX-XXXX'' [] 4321 ''02/11/2026''
         (fst (add_client ''Ana'' ''ana@x.com'' ''(11) 9 8765-4321'' '' first client '' 234
                 ''01/11/2026'' db0))))) = example_db"
proof -
  let ?db0 = "[''clients'' \<mapsto> \<lparr>columns = clients_columns, rows = [], last_id = 0\<rparr>,
               ''budgets'' \<mapsto> \<lparr>columns = budgets_columns_main, rows = [], last_id = 0\<rparr>]"
  have "?db0 ''clients'' = Some \<lparr>columns = clients_columns, rows = [], last_id = 0\<rparr>"
    by simp
  then show ?thesis
    using add_three_clients[of ?db0]
    by (intro exI[of _ ?db0]) (simp add: init_database_main_empty example_db_def fun_upd_twist)
qed

lemma example_db_tables:
  "example_db ''clients'' = Some example_clients"
  "example_db ''budgets'' = Some \<lparr>columns = budgets_columns_main, rows = [], last_id = 0\<rparr>"
  "example_budget_db ''clients'' = Some example_clients"
  "example_budget_db ''budgets'' = Some example_budgets"
  by (simp_all add: example_db_def example_budget_db_def)

lemma example_records:
  "client_record ana_row = [Text ''AUT-1234'', Text ''Ana'', Text ''ana@x.com'',
     Text ''(11) 9 8765-4321'', Text ''first client'', Text ''01/11/2026'']"
  "client_record bruno_row = [Text ''AUT-5321'', Text ''Bruno'', Text ''Digite o email'',
     Text ''(XX) X XXXX-XXXX'', Text [], Text ''02/11/2026'']"
  "client_record carla_row = [Text ''AUT-1007'', Text ''Carla'', Text ''carla@x.com'',
     Text ''(11) 9 1111-2222'', Text ''vip'', Text ''03/11/2026'']"
  by (simp_all add: client_record_def client_fields_def cell_def ana_row_def bruno_row_def
        carla_row_def fold_name_names)

section \<open>Properties of the client operations\<close>

lemma py_in_sublist: "py_in sub s \<longleftrightarrow> sublist sub s"
  by (induction s) (simp_all add: sublist_Cons_right)

lemma py_in_iff: "py_in sub s \<longleftrightarrow> (\<exists>pre suf. s = pre @ sub @ suf)"
  by (simp add: py_in_sublist sublist_def)

lemma field_matches_Text: "field_matches search_text (Text s) = py_in (lower search_text) (lower s)"
  by (simp add: field_matches_def py_in_iff)

lemma field_contains_text:
  "is_text v \<Longrightarrow> field_contains (lower search_text) v = Inr (field_matches search_text v)"
  by (cases v) (auto simp: is_text_def field_matches_def py_in_iff)

lemma any_field_text:
  "list_all is_text vs \<Longrightarrow>
   any_field (lower search_text) vs = Inr (record_matches search_text vs)"
  by (induction vs) (auto simp: record_matches_def field_contains_text split: bool.splits)

lemma filter_loop_text:
  "list_all (list_all is_text) fetched \<Longrightarrow>
   filter_loop (lower search_text) fetched tree =
     (tree @ filter (record_matches search_text) fetched, None)"
  by (induction fetched arbitrary: tree) (auto simp: any_field_text split: bool.splits)

text \<open>
  What happens on a field that is not text: the first row with NULL in its first
  field ends the listing with an \<open>AttributeError\<close>.
\<close>

lemma filter_loop_null:
  "filter_loop search_term ((Null # vs) # fetched) tree = (tree, Some AttributeError)"
  by simp

text \<open>
  On a store whose clients table has the six fields with text in them, for every
  search text, the listing that \<open>filter_data\<close> leaves is, in storage order, exactly the
  client records of which at least one of the six fields contains the lowercased
  search text in its lowercased text, and no exception is reported.
\<close>

lemma filter_data_returns_matching_records:
  assumes "db ''clients'' = Some t"
    and "set client_fields \<subseteq> set (columns t)"
    and "\<forall>r \<in> set (rows t). list_all is_text (client_record r)"
  shows "filter_data search_text db =
           (filter (record_matches search_text) (map client_record (rows t)), None)"
proof -
  have "sql_select ''clients'' client_fields db = Inr (map client_record (rows t))"
    using assms(1,2)
    by (simp add: sql_select_def table_check_ok client_record_def fold_name_names)
  moreover have "list_all (list_all is_text) (map client_record (rows t))"
    using assms(3) by (simp add: list_all_iff)
  ultimately show ?thesis
    by (simp add: filter_data_def filter_loop_text)
qed

text \<open>
  The search scenario: with the clients Ana, Bruno and Carla stored, the search text
  \<open>an\<close> lists the record of Ana and no other.
\<close>

lemma filter_data_search_scenario:
  "example_db ''clients'' = Some example_clients \<and>
   filter_data ''an'' example_db =
     ([[Text ''AUT-1234'', Text ''Ana'', Text ''ana@x.com'', Text ''(11) 9 8765-4321'',
        Text ''first client'', Text ''01/11/2026'']], None) \<and>
   filter_data ''AN'' example_db = filter_data ''an'' example_db"
proof -
  have h1: "example_db ''clients'' = Some example_clients"
    by (rule example_db_tables)
  have h2: "set client_fields \<subseteq> set (columns example_clients)"
    by (simp add: client_fields_def example_clients_def clients_columns_def)
  have h3: "\<forall>r \<in> set (rows example_clients). list_all is_text (client_record r)"
    by (simp add: example_clients_def example_records is_text_def)
  have low: "lower ''an'' = ''an''" "lower ''AN'' = ''an''"
    by (simp_all add: lower_def lower_char_def)
  have m: "record_matches ''an'' (client_record ana_row)"
          "\<not> record_matches ''an'' (client_record bruno_row)"
          "\<not> record_matches ''an'' (client_record carla_row)"
          "record_matches ''AN'' (client_record ana_row)"
          "\<not> record_matches ''AN'' (client_record bruno_row)"
          "\<not> record_matches ''AN'' (client_record carla_row)"
    by (simp_all add: record_matches_def example_records field_matches_Text low lower_def
          lower_char_def)
  show ?thesis
    using filter_data_returns_matching_records [of example_db example_clients "''an''"]
      filter_data_returns_matching_records [of example_db example_clients "''AN''"]
      h1 h2 h3 m
    by (simp add: example_clients_def example_records)
qed

lemma init_database_main_legacy: "init_database_main legacy_db = Inr migrated_db"
proof -
  have r: "legacy_row(''client_id'' \<mapsto> Null, ''date_added'' \<mapsto> Null) = migrated_row"
    by (simp add: migrated_row_def)
  show ?thesis
    by (simp add: init_database_main_def init_clients_def create_table_if_not_exists_def
          pragma_table_info_def alter_table_add_column_def has_column_def legacy_db_def
          migrated_db_def Let_def fold_name_names r fun_upd_twist)
qed

lemma migrated_record:
  "client_record migrated_row =
     [Null, Text ''Ana'', Text ''ana@x.com'', Text ''(11) 9 8765-4321'', Text ''first client'',
      Null]"
  by (simp add: client_record_def client_fields_def cell_def migrated_row_def legacy_row_def
        fold_name_names)

text \<open>
  C1. The listing is meant to hold exactly the records with a field that contains the
  search text. The code fails to do so on a store that \<open>init_database\<close> itself
  produces: it adds the columns \<open>client_id\<close> and \<open>date_added\<close> to an older clients
  table, whose rows then hold NULL there. For the client Ana stored in such a table,
  the search text \<open>ana\<close> is contained in the name, yet \<open>filter_data\<close> ends with an
  \<open>AttributeError\<close> (for \<open>row[0].lower()\<close> on \<open>None\<close>) and lists nothing.
\<close>

theorem filter_data_fails_on_migrated_store:
  "init_database_main legacy_db = Inr migrated_db \<and>
   sql_select ''clients'' client_fields migrated_db =
     Inr [[Null, Text ''Ana'', Text ''ana@x.com'', Text ''(11) 9 8765-4321'',
           Text ''first client'', Null]] \<and>
   record_matches ''ana''
     [Null, Text ''Ana'', Text ''ana@x.com'', Text ''(11) 9 8765-4321'', Text ''first client'',
      Null] \<and>
   filter_data ''ana'' migrated_db = ([], Some AttributeError)"
proof -
  have t: "migrated_db ''clients'' =
             Some \<lparr>columns = [''id'', ''name'', ''email'', ''phone'', ''observation'',
                                 ''client_id'', ''date_added''],
                    rows = [migrated_row], last_id = 1\<rparr>"
    by (simp add: migrated_db_def)
  have sel: "sql_select ''clients'' client_fields migrated_db =
               Inr [client_record migrated_row]"
    using t by (simp add: sql_select_def table_check_ok client_fields_def client_record_def
                  fold_name_names)
  have low: "lower ''ana'' = ''ana''" "lower ''Ana'' = ''ana''"
    by (simp_all add: lower_def lower_char_def)
  have m: "record_matches ''ana'' (client_record migrated_row)"
    by (simp add: migrated_record record_matches_def field_matches_Text low)
  have f: "filter_data ''ana'' migrated_db = ([], Some AttributeError)"
    by (simp add: filter_data_def sel migrated_record)
  show ?thesis
    using init_database_main_legacy sel m f by (simp add: migrated_record)
qed

lemma edit_client_save_client_result:
  assumes "db ''clients'' = Some t"
    and "set client_fields \<subseteq> set (columns t)"
  shows "edit_client_save_client client_id name email phone observation_text db =
           (db(''clients'' \<mapsto>
               t\<lparr>rows := map (\<lambda>x. if x ''client_id'' = Some (Text client_id)
                                    then x(''observation'' \<mapsto> Text (strip observation_text),
                                           ''phone'' \<mapsto> Text phone, ''email'' \<mapsto> Text email,
                                           ''name'' \<mapsto> Text name)
                                    else x) (rows t)\<rparr>), Success)"
proof -
  let ?sets = "[(''name'', Text name), (''email'', Text email), (''phone'', Text phone),
                (''observation'', Text (strip observation_text))]"
  have cols: "set (map fst ?sets @ [''client_id'']) \<subseteq> set (columns t)"
    using assms(2) by (auto simp: client_fields_def)
  show ?thesis
    using assms(1) cols
    by (simp add: edit_client_save_client_def sql_update_ok fold_name_names cong: if_cong)
qed

lemma add_client_save_client_result:
  assumes "db ''clients'' = Some t"
    and "set client_fields \<subseteq> set (columns t)"
  shows "add_client_save_client name email phone observation_text r today db =
           (db(''clients'' \<mapsto>
               t\<lparr>rows := rows t @ [new_row t client_fields
                                      [Text (generate_client_id r), Text name, Text email,
                                       Text phone, Text (strip observation_text), Text today]],
                  last_id := last_id t + 1\<rparr>), Success)"
  using assms
  by (simp add: add_client_save_client_def sql_insert_ok client_fields_def fold_name_names)

text \<open>
  C2. Editing a client by its identifier: in every store whose clients table has the
  six fields, the edit succeeds, keeps the number and order of the rows, and
  \<^item> every row with that identifier afterwards holds the new name, email and phone
    and the new observation (the text of the widget, stripped), and keeps its
    date-added, its identifier and its key;
  \<^item> every row with another identifier is unchanged;
  \<^item> for a client added with the date \<open>today\<close> and then edited by the identifier it was
    given, the stored row holds the new values and still the date \<open>today\<close>.
\<close>

theorem edit_client_updates_fields_keeps_date:
  assumes "db ''clients'' = Some t"
    and "set client_fields \<subseteq> set (columns t)"
  shows "(\<exists>t'. edit_client_save_client client_id name email phone observation_text db =
                 (db(''clients'' \<mapsto> t'), Success) \<and>
              columns t' = columns t \<and> last_id t' = last_id t \<and>
              length (rows t') = length (rows t) \<and>
              (\<forall>i < length (rows t).
                 if (rows t ! i) ''client_id'' = Some (Text client_id)
                 then (rows t' ! i) ''name'' = Some (Text name) \<and>
                      (rows t' ! i) ''email'' = Some (Text email) \<and>
                      (rows t' ! i) ''phone'' = Some (Text phone) \<and>
                      (rows t' ! i) ''observation'' = Some (Text (strip observation_text)) \<and>
                      (rows t' ! i) ''date_added'' = (rows t ! i) ''date_added'' \<and>
                      (rows t' ! i) ''client_id'' = (rows t ! i) ''client_id'' \<and>
                      (rows t' ! i) ''id'' = (rows t ! i) ''id''
                 else rows t' ! i = rows t ! i)) \<and>
         (\<exists>db1 db2 t2.
            add_client_save_client name0 email0 phone0 observation0 r today db = (db1, Success) \<and>
            edit_client_save_client (generate_client_id r) name email phone observation_text db1 =
              (db2, Success) \<and>
            db2 ''clients'' = Some t2 \<and> length (rows t2) = Suc (length (rows t)) \<and>
            last (rows t2) ''client_id'' = Some (Text (generate_client_id r)) \<and>
            last (rows t2) ''date_added'' = Some (Text today) \<and>
            last (rows t2) ''name'' = Some (Text name) \<and>
            last (rows t2) ''email'' = Some (Text email) \<and>
            last (rows t2) ''phone'' = Some (Text phone) \<and>
            last (rows t2) ''observation'' = Some (Text (strip observation_text)))"
proof
  let ?upd = "\<lambda>cid (x::row). if x ''client_id'' = Some (Text cid)
                then x(''observation'' \<mapsto> Text (strip observation_text), ''phone'' \<mapsto> Text phone,
                       ''email'' \<mapsto> Text email, ''name'' \<mapsto> Text name)
                else x"
  let ?t' = "t\<lparr>rows := map (?upd client_id) (rows t)\<rparr>"
  have "edit_client_save_client client_id name email phone observation_text db =
          (db(''clients'' \<mapsto> ?t'), Success)"
    using assms by (rule edit_client_save_client_result)
  then show "\<exists>t'. edit_client_save_client client_id name email phone observation_text db =
                 (db(''clients'' \<mapsto> t'), Success) \<and>
              columns t' = columns t \<and> last_id t' = last_id t \<and>
              length (rows t') = length (rows t) \<and>
              (\<forall>i < length (rows t).
                 if (rows t ! i) ''client_id'' = Some (Text client_id)
                 then (rows t' ! i) ''name'' = Some (Text name) \<and>
                      (rows t' ! i) ''email'' = Some (Text email) \<and>
                      (rows t' ! i) ''phone'' = Some (Text phone) \<and>
                      (rows t' ! i) ''observation'' = Some (Text (strip observation_text)) \<and>
                      (rows t' ! i) ''date_added'' = (rows t ! i) ''date_added'' \<and>
                      (rows t' ! i) ''client_id'' = (rows t ! i) ''client_id'' \<and>
                      (rows t' ! i) ''id'' = (rows t ! i) ''id''
                 else rows t' ! i = rows t ! i)"
    by (intro exI[of _ ?t']) simp
next
  let ?new = "new_row t client_fields
                [Text (generate_client_id r), Text name0, Text email0, Text phone0,
                 Text (strip observation0), Text today]"
  let ?t1 = "t\<lparr>rows := rows t @ [?new], last_id := last_id t + 1\<rparr>"
  let ?db1 = "db(''clients'' \<mapsto> ?t1)"
  let ?upd = "\<lambda>x::row. if x ''client_id'' = Some (Text (generate_client_id r))
                then x(''observation'' \<mapsto> Text (strip observation_text), ''phone'' \<mapsto> Text phone,
                       ''email'' \<mapsto> Text email, ''name'' \<mapsto> Text name)
                else x"
  let ?t2 = "?t1\<lparr>rows := map ?upd (rows ?t1)\<rparr>"
  let ?db2 = "?db1(''clients'' \<mapsto> ?t2)"
  have add: "add_client_save_client name0 email0 phone0 observation0 r today db = (?db1, Success)"
    using assms by (rule add_client_save_client_result)
  have d1: "?db1 ''clients'' = Some ?t1" by simp
  have c1: "set client_fields \<subseteq> set (columns ?t1)"
    using assms(2) by simp
  have edit: "edit_client_save_client (generate_client_id r) name email phone observation_text
                ?db1 = (?db2, Success)"
    using d1 c1 by (rule edit_client_save_client_result)
  have new: "?new ''client_id'' = Some (Text (generate_client_id r))"
            "?new ''date_added'' = Some (Text today)"
    by (simp_all add: new_row_def client_fields_def fold_name_names)
  have last: "last (rows ?t2) = ?upd ?new"
    by simp
  show "\<exists>db1 db2 t2.
            add_client_save_client name0 email0 phone0 observation0 r today db = (db1, Success) \<and>
            edit_client_save_client (generate_client_id r) name email phone observation_text db1 =
              (db2, Success) \<and>
            db2 ''clients'' = Some t2 \<and> length (rows t2) = Suc (length (rows t)) \<and>
            last (rows t2) ''client_id'' = Some (Text (generate_client_id r)) \<and>
            last (rows t2) ''date_added'' = Some (Text today) \<and>
            last (rows t2) ''name'' = Some (Text name) \<and>
            last (rows t2) ''email'' = Some (Text email) \<and>
            last (rows t2) ''phone'' = Some (Text phone) \<and>
            last (rows t2) ''observation'' = Some (Text (strip observation_text))"
  proof (intro exI conjI)
    show "add_client_save_client name0 email0 phone0 observation0 r today db = (?db1, Success)"
      by (rule add)
    show "edit_client_save_client (generate_client_id r) name email phone observation_text ?db1 =
            (?db2, Success)"
      by (rule edit)
    show "?db2 ''clients'' = Some ?t2" by simp
    show "length (rows ?t2) = Suc (length (rows t))" by simp
    show "last (rows ?t2) ''client_id'' = Some (Text (generate_client_id r))"
      unfolding last using new(1) by simp
    show "last (rows ?t2) ''date_added'' = Some (Text today)"
      unfolding last using new by simp
    show "last (rows ?t2) ''name'' = Some (Text name)"
      unfolding last using new(1) by simp
    show "last (rows ?t2) ''email'' = Some (Text email)"
      unfolding last using new(1) by simp
    show "last (rows ?t2) ''phone'' = Some (Text phone)"
      unfolding last using new(1) by simp
    show "last (rows ?t2) ''observation'' = Some (Text (strip observation_text))"
      unfolding last using new(1) by simp
  qed
qed

lemma example_clients_fields:
  "set client_fields \<subseteq> set (columns example_clients)"
  "''client_id'' \<in> set (columns example_clients)"
  "length (rows example_clients) = 3"
  "rows example_clients ! 0 = ana_row" "rows example_clients ! 1 = bruno_row"
  "rows example_clients ! 2 = carla_row" "rows example_clients ! Suc 0 = bruno_row"
  by (simp_all add: client_fields_def example_clients_def clients_columns_def)

lemma example_rows_client_id:
  "ana_row ''client_id'' = Some (Text ''AUT-1234'')"
  "bruno_row ''client_id'' = Some (Text ''AUT-5321'')"
  "carla_row ''client_id'' = Some (Text ''AUT-1007'')"
  "ana_row ''date_added'' = Some (Text ''01/11/2026'')"
  by (simp_all add: ana_row_def bruno_row_def carla_row_def)

theorem edit_client_updates_fields_keeps_date_witness:
  "example_db ''clients'' = Some example_clients \<and>
   (\<exists>t'. edit_client_save_client ''AUT-1234'' ''Ana Maria'' ''ana@y.org'' ''(11) 9 0000-1111''
            ''  vip client  '' example_db = (example_db(''clients'' \<mapsto> t'), Success) \<and>
         length (rows t') = 3 \<and>
         (rows t' ! 0) ''name'' = Some (Text ''Ana Maria'') \<and>
         (rows t' ! 0) ''email'' = Some (Text ''ana@y.org'') \<and>
         (rows t' ! 0) ''phone'' = Some (Text ''(11) 9 0000-1111'') \<and>
         (rows t' ! 0) ''observation'' = Some (Text ''vip client'') \<and>
         (rows t' ! 0) ''date_added'' = Some (Text ''01/11/2026'') \<and>
         (rows t' ! 0) ''client_id'' = Some (Text ''AUT-1234'') \<and>
         rows t' ! 1 = bruno_row \<and> rows t' ! 2 = carla_row)"
proof -
  have h1: "example_db ''clients'' = Some example_clients"
    by (rule example_db_tables)
  from h1 example_clients_fields(1)
    edit_client_updates_fields_keeps_date [of example_db example_clients "''AUT-1234''"
      "''Ana Maria''" "''ana@y.org''" "''(11) 9 0000-1111''" "''  vip client  ''"]
  obtain t' where
    r: "edit_client_save_client ''AUT-1234'' ''Ana Maria'' ''ana@y.org'' ''(11) 9 0000-1111''
          ''  vip client  '' example_db = (example_db(''clients'' \<mapsto> t'), Success)" and
    l: "length (rows t') = length (rows example_clients)" and
    a: "\<forall>i < length (rows example_clients).
          if (rows example_clients ! i) ''client_id'' = Some (Text ''AUT-1234'')
          then (rows t' ! i) ''name'' = Some (Text ''Ana Maria'') \<and>
               (rows t' ! i) ''email'' = Some (Text ''ana@y.org'') \<and>
               (rows t' ! i) ''phone'' = Some (Text ''(11) 9 0000-1111'') \<and>
               (rows t' ! i) ''observation'' = Some (Text (strip ''  vip client  '')) \<and>
               (rows t' ! i) ''date_added'' = (rows example_clients ! i) ''date_added'' \<and>
               (rows t' ! i) ''client_id'' = (rows example_clients ! i) ''client_id'' \<and>
               (rows t' ! i) ''id'' = (rows example_clients ! i) ''id''
          else rows t' ! i = rows example_clients ! i"
    by blast
  have a0: "(rows t' ! 0) ''name'' = Some (Text ''Ana Maria'') \<and>
            (rows t' ! 0) ''email'' = Some (Text ''ana@y.org'') \<and>
            (rows t' ! 0) ''phone'' = Some (Text ''(11) 9 0000-1111'') \<and>
            (rows t' ! 0) ''observation'' = Some (Text ''vip client'') \<and>
            (rows t' ! 0) ''date_added'' = Some (Text ''01/11/2026'') \<and>
            (rows t' ! 0) ''client_id'' = Some (Text ''AUT-1234'')"
    using a[rule_format, of 0]
    by (simp add: example_clients_fields example_rows_client_id strip_examples)
  have a1: "rows t' ! 1 = bruno_row"
    using a[rule_format, of 1] by (simp add: example_clients_fields example_rows_client_id)
  have a2: "rows t' ! 2 = carla_row"
    using a[rule_format, of 2] by (simp add: example_clients_fields example_rows_client_id)
  show ?thesis
    using h1 r l a0 a1 a2 by (intro conjI exI[of _ t']) (simp_all add: example_clients_fields)
qed

lemma delete_client_absent:
  assumes "db ''clients'' = Some t" and "''client_id'' \<in> set (columns t)"
    and "\<forall>x \<in> set (rows t). x ''client_id'' \<noteq> Some (Text ident)"
  shows "delete_client_record (Some ident) True db = (db, Success)"
  using assms by (simp add: delete_client_record_def sql_delete_absent fold_name_names)

lemma delete_client_twice:
  assumes "db ''clients'' = Some t" and "''client_id'' \<in> set (columns t)"
  shows "\<exists>db1. delete_client_record (Some ident) True db = (db1, Success) \<and>
           delete_client_record (Some ident) True db1 = (db1, Success)"
proof -
  obtain db1 where d: "sql_delete ''clients'' ''client_id'' ident db = Inr db1"
    using assms by (simp add: sql_delete_ok fold_name_names)
  then have "sql_delete ''clients'' ''client_id'' ident db1 = Inr db1"
    using assms sql_delete_twice[of db "''clients''" t "''client_id''" ident db1]
    by (simp add: fold_name_names)
  with d show ?thesis by (simp add: delete_client_record_def)
qed

lemma delete_budget_absent:
  assumes "db ''budgets'' = Some t" and "''budget_id'' \<in> set (columns t)"
    and "\<forall>x \<in> set (rows t). x ''budget_id'' \<noteq> Some (Text ident)"
  shows "delete_budget_record (Some ident) True db = (db, Success)"
  using assms by (simp add: delete_budget_record_def sql_delete_absent fold_name_names)

lemma delete_budget_twice:
  assumes "db ''budgets'' = Some t" and "''budget_id'' \<in> set (columns t)"
  shows "\<exists>db1. delete_budget_record (Some ident) True db = (db1, Success) \<and>
           delete_budget_record (Some ident) True db1 = (db1, Success)"
proof -
  obtain db1 where d: "sql_delete ''budgets'' ''budget_id'' ident db = Inr db1"
    using assms by (simp add: sql_delete_ok fold_name_names)
  then have "sql_delete ''budgets'' ''budget_id'' ident db1 = Inr db1"
    using assms sql_delete_twice[of db "''budgets''" t "''budget_id''" ident db1]
    by (simp add: fold_name_names)
  with d show ?thesis by (simp add: delete_budget_record_def)
qed

text \<open>
  C3. In every store that has the clients table and the budgets table with their
  identifier columns: deleting a client, or a budget, by an identifier that no stored
  row has leaves the store as it is and reports success; and deleting by the same
  identifier twice succeeds both times, the second call leaving the store as the first
  call left it.
\<close>

theorem delete_absent_identifier_is_noop:
  assumes "db ''clients'' = Some tc" and "''client_id'' \<in> set (columns tc)"
    and "db ''budgets'' = Some tb" and "''budget_id'' \<in> set (columns tb)"
  shows "((\<forall>x \<in> set (rows tc). x ''client_id'' \<noteq> Some (Text ident)) \<longrightarrow>
            delete_client_record (Some ident) True db = (db, Success)) \<and>
         ((\<forall>x \<in> set (rows tb). x ''budget_id'' \<noteq> Some (Text ident)) \<longrightarrow>
            delete_budget_record (Some ident) True db = (db, Success)) \<and>
         (\<exists>db1. delete_client_record (Some ident) True db = (db1, Success) \<and>
                delete_client_record (Some ident) True db1 = (db1, Success)) \<and>
         (\<exists>db1. delete_budget_record (Some ident) True db = (db1, Success) \<and>
                delete_budget_record (Some ident) True db1 = (db1, Success))"
  using assms delete_client_absent[of db tc ident] delete_budget_absent[of db tb ident]
    delete_client_twice[of db tc ident] delete_budget_twice[of db tb ident]
  by blast

theorem delete_absent_identifier_is_noop_witness:
  "example_budget_db ''clients'' = Some example_clients \<and>
   example_budget_db ''budgets'' = Some example_budgets \<and>
   delete_client_record (Some ''AUT-9999'') True example_budget_db =
     (example_budget_db, Success) \<and>
   delete_budget_record (Some ''AUT-9999'') True example_budget_db =
     (example_budget_db, Success) \<and>
   (\<exists>db1. delete_client_record (Some ''AUT-1234'') True example_budget_db = (db1, Success) \<and>
          delete_client_record (Some ''AUT-1234'') True db1 = (db1, Success)) \<and>
   (\<exists>db1. delete_budget_record (Some ''ART-1000'') True example_budget_db = (db1, Success) \<and>
          delete_budget_record (Some ''ART-1000'') True db1 = (db1, Success))"
proof -
  have h: "example_budget_db ''clients'' = Some example_clients"
          "''client_id'' \<in> set (columns example_clients)"
          "example_budget_db ''budgets'' = Some example_budgets"
          "''budget_id'' \<in> set (columns example_budgets)"
    by (simp_all add: example_db_tables example_clients_fields example_budgets_def
          budgets_columns_budget_def)
  have absent:
    "\<forall>x \<in> set (rows example_clients). x ''client_id'' \<noteq> Some (Text ''AUT-9999'')"
    "\<forall>x \<in> set (rows example_budgets). x ''budget_id'' \<noteq> Some (Text ''AUT-9999'')"
    by (simp_all add: example_clients_def example_budgets_def example_rows_client_id
          logo_row_def)
  show ?thesis
    using delete_absent_identifier_is_noop
        [of example_budget_db example_clients example_budgets "''AUT-9999''"]
      delete_absent_identifier_is_noop
        [of example_budget_db example_clients example_budgets "''AUT-1234''"]
      delete_absent_identifier_is_noop
        [of example_budget_db example_clients example_budgets "''ART-1000''"]
      h absent
    by blast
qed

section \<open>Properties of the budget operations of budget.py\<close>

lemma new_row_logo:
  "new_row \<lparr>columns = budgets_columns_budget, rows = rs, last_id = 0\<rparr> budget_fields
     [Text ''ART-1000'', Text ''AUT-1234'', Text ''03/11/2026'', Text ''Logo'',
      Text ''10/12/2026'', Text ''30 dias'', Text ''Design''] = logo_row"
  by (rule ext) (simp add: new_row_def logo_row_def budgets_columns_budget_def budget_fields_def
       restrict_map_def map_add_def fold_name_names)

lemma bm_add_budget_save_budget_result:
  assumes "db ''budgets'' = Some tb" and "set budget_fields \<subseteq> set (columns tb)"
    and "db ''clients'' = Some tc" and "''client_id'' \<in> set (columns tc)"
    and "''name'' \<in> set (columns tc)"
    and "client_name \<noteq> []" and "client_name \<noteq> ''Digite o nome do cliente''"
  shows "bm_add_budget_save_budget client_name budget_type completion deadline service r today db =
           (db(''budgets'' \<mapsto>
               tb\<lparr>rows := rows tb @
                     [new_row tb budget_fields
                        [Text (generate_budget_id r),
                         case find (\<lambda>c. c ''name'' = Some (Text client_name)) (rows tc) of
                           None \<Rightarrow> Null
                         | Some c \<Rightarrow> cell c ''client_id'',
                         Text today, Text budget_type, Text completion, Text deadline,
                         Text service]],
                   last_id := last_id tb + 1\<rparr>), Success)"
proof -
  have sub: "sql_scalar_select ''clients'' ''client_id'' ''name'' client_name db =
               Inr (case find (\<lambda>c. c ''name'' = Some (Text client_name)) (rows tc) of
                      None \<Rightarrow> Null
                    | Some c \<Rightarrow> cell c ''client_id'')"
    using assms(3,4,5)
    by (simp add: sql_scalar_select_def table_check_ok first_of_filter fold_name_names)
  have cols: "set [''budget_id'', ''client_id'', ''date'', ''type'', ''completion'',
                   ''deadline'', ''service''] \<subseteq> set (columns tb)"
    using assms(2) by (simp add: budget_fields_def)
  show ?thesis
    using assms(1,6,7) cols sub
    by (simp add: bm_add_budget_save_budget_def table_check_ok sql_insert_ok Let_def
          budget_fields_def fold_name_names)
qed

text \<open>
  The example store of budget.py is built by creating the schema, adding the three
  clients and adding a budget for the client named Ana.
\<close>

lemma example_budget_db_built:
  "\<exists>db0. init_database_budget Map.empty = Inr db0 \<and>
     fst (bm_add_budget_save_budget ''Ana'' ''Logo'' ''10/12/2026'' ''30 dias'' ''Design'' 0
            ''03/11/2026''
       (fst (add_client ''Carla'' ''carla@x.com'' ''(11) 9 1111-2222'' ''vip'' 7 ''03/11/2026''
         (fst (add_client ''Bruno'' ''Digite o email'' ''(XX) X XXXX-XXXX'' [] 4321 ''02/11/2026''
           (fst (add_client ''Ana'' ''ana@x.com'' ''(11) 9 8765-4321'' '' first client '' 234
                   ''01/11/2026'' db0))))))) = example_budget_db"
proof -
  let ?b0 = "\<lparr>columns = budgets_columns_budget, rows = [], last_id = 0\<rparr>"
  let ?u0 = "\<lparr>columns = users_columns, rows = [], last_id = 0\<rparr>"
  let ?db0 = "[''clients'' \<mapsto> \<lparr>columns = clients_columns, rows = [], last_id = 0\<rparr>,
               ''budgets'' \<mapsto> ?b0, ''users'' \<mapsto> ?u0]"
  let ?db3 = "[''clients'' \<mapsto> example_clients, ''budgets'' \<mapsto> ?b0, ''users'' \<mapsto> ?u0]"
  have "?db0 ''clients'' = Some \<lparr>columns = clients_columns, rows = [], last_id = 0\<rparr>"
    by simp
  then have three:
    "fst (add_client ''Carla'' ''carla@x.com'' ''(11) 9 1111-2222'' ''vip'' 7 ''03/11/2026''
       (fst (add_client ''Bruno'' ''Digite o email'' ''(XX) X XXXX-XXXX'' [] 4321 ''02/11/2026''
         (fst (add_client ''Ana'' ''ana@x.com'' ''(11) 9 8765-4321'' '' first client '' 234
                 ''01/11/2026'' ?db0))))) = ?db3"
    using add_three_clients[of ?db0] by (simp add: fun_upd_twist)
  have h: "?db3 ''budgets'' = Some ?b0" "set budget_fields \<subseteq> set (columns ?b0)"
          "?db3 ''clients'' = Some example_clients"
          "''client_id'' \<in> set (columns example_clients)"
          "''name'' \<in> set (columns example_clients)"
    by (simp_all add: budget_fields_def budgets_columns_budget_def example_clients_def
          clients_columns_def)
  have f: "find (\<lambda>c. c ''name'' = Some (Text ''Ana'')) (rows example_clients) = Some ana_row"
    by (simp add: example_clients_def ana_row_def)
  have "bm_add_budget_save_budget ''Ana'' ''Logo'' ''10/12/2026'' ''30 dias'' ''Design'' 0
          ''03/11/2026'' ?db3 = (example_budget_db, Success)"
    using h
    by (simp add: bm_add_budget_save_budget_result f cell_def example_rows_client_id
          generate_id_examples new_row_logo example_budget_db_def example_budgets_def
          fun_upd_twist fold_name_names)
  then show ?thesis
    by (intro exI[of _ ?db0]) (simp add: init_database_budget_empty three)
qed

text \<open>
  C7. In budget.py, with a client name given (neither empty nor the placeholder) and a
  store that has the budgets table of budget.py and a clients table: \<open>save_budget\<close>
  succeeds and appends one budget row whose client reference is the identifier of the
  first client row with that name, looked up in the clients table as it is at that
  moment; when no client row has the name, the reference stored is NULL and the insert
  succeeds all the same.
\<close>

theorem bm_add_budget_stores_looked_up_client:
  assumes "db ''budgets'' = Some tb" and "set budget_fields \<subseteq> set (columns tb)"
    and "db ''clients'' = Some tc" and "''client_id'' \<in> set (columns tc)"
    and "''name'' \<in> set (columns tc)"
    and "client_name \<noteq> []" and "client_name \<noteq> ''Digite o nome do cliente''"
  shows "\<exists>new. bm_add_budget_save_budget client_name budget_type completion deadline service r
                 today db =
               (db(''budgets'' \<mapsto> tb\<lparr>rows := rows tb @ [new], last_id := last_id tb + 1\<rparr>),
                Success) \<and>
           new ''budget_id'' = Some (Text (generate_budget_id r)) \<and>
           new ''date'' = Some (Text today) \<and> new ''type'' = Some (Text budget_type) \<and>
           new ''completion'' = Some (Text completion) \<and>
           new ''deadline'' = Some (Text deadline) \<and> new ''service'' = Some (Text service) \<and>
           (case find (\<lambda>c. c ''name'' = Some (Text client_name)) (rows tc) of
              None \<Rightarrow> new ''client_id'' = Some Null
            | Some c \<Rightarrow> new ''client_id'' = Some (cell c ''client_id''))"
proof -
  let ?new = "new_row tb budget_fields
                [Text (generate_budget_id r),
                 case find (\<lambda>c. c ''name'' = Some (Text client_name)) (rows tc) of
                   None \<Rightarrow> Null
                 | Some c \<Rightarrow> cell c ''client_id'',
                 Text today, Text budget_type, Text completion, Text deadline, Text service]"
  have "bm_add_budget_save_budget client_name budget_type completion deadline service r today db =
          (db(''budgets'' \<mapsto> tb\<lparr>rows := rows tb @ [?new], last_id := last_id tb + 1\<rparr>), Success)"
    using assms by (rule bm_add_budget_save_budget_result)
  then show ?thesis
    by (intro exI[of _ ?new])
       (simp add: new_row_def budget_fields_def fold_name_names split: option.splits)
qed

theorem bm_add_budget_stores_looked_up_client_witness:
  "example_budget_db ''budgets'' = Some example_budgets \<and>
   example_budget_db ''clients'' = Some example_clients \<and>
   (\<exists>new. bm_add_budget_save_budget ''Carla'' ''Site'' ''20/12/2026'' ''45 dias'' ''Web'' 77
            ''04/11/2026'' example_budget_db =
          (example_budget_db(''budgets'' \<mapsto>
             example_budgets\<lparr>rows := [logo_row, new], last_id := 2\<rparr>), Success) \<and>
          new ''client_id'' = Some (Text ''AUT-1007'') \<and> new ''type'' = Some (Text ''Site'')) \<and>
   (\<exists>new. bm_add_budget_save_budget ''Maria Silva'' ''Logo'' ''20/12/2026'' ''45 dias'' ''Web'' 77
            ''04/11/2026'' example_budget_db =
          (example_budget_db(''budgets'' \<mapsto>
             example_budgets\<lparr>rows := [logo_row, new], last_id := 2\<rparr>), Success) \<and>
          new ''client_id'' = Some Null \<and> new ''type'' = Some (Text ''Logo''))"
proof -
  have h: "example_budget_db ''budgets'' = Some example_budgets"
          "set budget_fields \<subseteq> set (columns example_budgets)"
          "example_budget_db ''clients'' = Some example_clients"
          "''client_id'' \<in> set (columns example_clients)"
          "''name'' \<in> set (columns example_clients)"
    by (simp_all add: example_db_tables budget_fields_def example_budgets_def
          budgets_columns_budget_def example_clients_def clients_columns_def)
  have f: "find (\<lambda>c. c ''name'' = Some (Text ''Carla'')) (rows example_clients) = Some carla_row"
          "find (\<lambda>c. c ''name'' = Some (Text ''Maria Silva'')) (rows example_clients) = None"
    by (simp_all add: example_clients_def ana_row_def bruno_row_def carla_row_def)
  have r: "rows example_budgets = [logo_row]" "last_id example_budgets = 1"
    by (simp_all add: example_budgets_def)
  from h bm_add_budget_stores_looked_up_client
         [of example_budget_db example_budgets example_clients "''Carla''" "''Site''"
            "''20/12/2026''" "''45 dias''" "''Web''" 77 "''04/11/2026''"]
  have 1: "\<exists>new. bm_add_budget_save_budget ''Carla'' ''Site'' ''20/12/2026'' ''45 dias'' ''Web'' 77
            ''04/11/2026'' example_budget_db =
          (example_budget_db(''budgets'' \<mapsto>
             example_budgets\<lparr>rows := [logo_row, new], last_id := 2\<rparr>), Success) \<and>
          new ''client_id'' = Some (Text ''AUT-1007'') \<and> new ''type'' = Some (Text ''Site'')"
    by (simp add: f r cell_def example_rows_client_id fold_name_names) blast
  from h bm_add_budget_stores_looked_up_client
         [of example_budget_db example_budgets example_clients "''Maria Silva''" "''Logo''"
            "''20/12/2026''" "''45 dias''" "''Web''" 77 "''04/11/2026''"]
  have 2: "\<exists>new. bm_add_budget_save_budget ''Maria Silva'' ''Logo'' ''20/12/2026'' ''45 dias''
            ''Web'' 77 ''04/11/2026'' example_budget_db =
          (example_budget_db(''budgets'' \<mapsto>
             example_budgets\<lparr>rows := [logo_row, new], last_id := 2\<rparr>), Success) \<and>
          new ''client_id'' = Some Null \<and> new ''type'' = Some (Text ''Logo'')"
    by (simp add: f r) blast
  from h(1,3) 1 2 show ?thesis by blast
qed

lemma init_clients_other_tables:
  "k \<noteq> ''clients'' \<Longrightarrow> init_clients db = Inr db' \<Longrightarrow> db' k = db k"
  by (auto simp: init_clients_def create_table_if_not_exists_def pragma_table_info_def
        alter_table_add_column_def Let_def fold_name_names
        split: option.splits if_splits sum.splits)

text \<open>
  On a store without a budgets table, \<open>init_database\<close> of budget.py, when it succeeds,
  has created the table with the columns of \<open>budgets_columns_budget\<close>, which have
  neither \<open>name\<close> nor \<open>email\<close>.
\<close>

lemma init_database_budget_creates_schema:
  assumes "db0 ''budgets'' = None" and "init_database_budget db0 = Inr db"
  shows "db ''budgets'' = Some \<lparr>columns = budgets_columns_budget, rows = [], last_id = 0\<rparr>"
proof -
  from assms(2) obtain db3 where i: "init_clients db0 = Inr db3"
    and d: "db = create_table_if_not_exists ''users'' users_columns
                  (create_table_if_not_exists ''budgets'' budgets_columns_budget db3)"
    by (auto simp: init_database_budget_def split: sum.splits)
  have "db3 ''budgets'' = None"
    using init_clients_other_tables[OF _ i, of "''budgets''"] assms(1) by simp
  then show ?thesis
    by (simp add: d create_table_if_not_exists_def fold_name_names split: option.splits)
qed

text \<open>
  \<open>init_database\<close> fails on a clients table that declares the column as
  \<open>CLIENT_ID\<close>: the test \<open>'client_id' not in columns\<close> of the code is sensitive to
  case, the statement that adds the column is not.
\<close>

lemma init_database_fails_on_upper_case_column:
  "init_database_budget
     [''clients'' \<mapsto> \<lparr>columns = [''id'', ''CLIENT_ID'', ''name''], rows = [], last_id = 0\<rparr>] =
   Inl (DuplicateColumn ''client_id'')"
  by (simp add: init_database_budget_def init_clients_def create_table_if_not_exists_def
        pragma_table_info_def alter_table_add_column_def has_column_def Let_def fold_name_names
        fold_name_def fold_char_def)



text \<open>
  Every row that \<open>load_budget_data\<close> puts into the table widget has seven values, and
  on a row of seven values the dialog raises \<open>IndexError\<close> when it reads
  \<open>item['values'][7]\<close>.
\<close>

lemma bm_load_budget_data_seven_values:
  "item \<in> set (fst (bm_load_budget_data db)) \<Longrightarrow> length item = 7"
  by (auto simp: bm_load_budget_data_def sql_select_def split: sum.splits)

lemma bm_open_edit_budget_dialog_seven_values:
  "length vals = 7 \<Longrightarrow> bm_open_edit_budget_dialog (Some vals) = Inl (Raised IndexError)"
  by (simp add: bm_open_edit_budget_dialog_def py_index_def)


lemma bm_edit_budget_on_listed_row:
  assumes "item \<in> set (fst (bm_load_budget_data db))"
  shows "bm_edit_budget (Some item) name email budget_type completion deadline service db =
           (db, Raised IndexError)"
  using bm_load_budget_data_seven_values[OF assms]
  by (simp add: bm_edit_budget_def bm_open_edit_budget_dialog_seven_values)





section \<open>The email check of the add dialogs\<close>

lemma on_focus_out_empty: "on_focus_out placeholder [] = placeholder"
  by (simp add: on_focus_out_def)

lemma on_focus_out_text: "s \<noteq> [] \<Longrightarrow> on_focus_out placeholder s = s"
  by (simp add: on_focus_out_def)

lemma on_focus_out_email:
  "on_focus_out ''Digite o email'' email_text = ''Digite o email'' \<longleftrightarrow>
     email_text = [] \<or> email_text = ''Digite o email''"
  "validate_email (on_focus_out ''Digite o email'' email_text) \<longleftrightarrow> validate_email email_text"
  by (simp_all add: on_focus_out_def validate_email_examples)

text \<open>
  An entry left empty holds its placeholder when the button is pressed, so the empty
  text and the placeholder are the same input to both add dialogs.
\<close>

lemma add_dialogs_empty_email_is_placeholder:
  "add_client_dialog_next_step name_text [] phone_text =
   add_client_dialog_next_step name_text ''Digite o email'' phone_text"
  "add_budget_dialog_save_budget name_text [] type_text completion_text deadline_text
     service_text r today db =
   add_budget_dialog_save_budget name_text ''Digite o email'' type_text completion_text
     deadline_text service_text r today db"
  by (simp_all add: add_client_dialog_next_step_def add_budget_dialog_save_budget_def
        on_focus_out_empty on_focus_out_text)

lemma add_budget_save_budget_email_check:
  assumes "name \<noteq> []" and "name \<noteq> ''Digite o nome''"
  shows "add_budget_save_budget name email budget_type completion deadline service r today db =
           (db, Warning EmailInvalid) \<longleftrightarrow>
         email \<noteq> ''Digite o email'' \<and> \<not> validate_email email"
  using assms by (simp add: add_budget_save_budget_def split: sum.splits)

text \<open>
  With a name given, each add dialog rejects the text of the email entry exactly when
  it is neither empty nor the placeholder and \<open>validate_email\<close> fails on it; that is,
  when it neither has the shape of an email nor is a text of that shape followed by
  a newline.
\<close>

lemma add_client_dialog_email_check:
  assumes "name_text \<noteq> []" and "name_text \<noteq> ''Digite o nome''"
  shows "add_client_dialog_next_step name_text email_text phone_text = Inl EmailInvalid \<longleftrightarrow>
         email_text \<noteq> [] \<and> email_text \<noteq> ''Digite o email'' \<and>
         \<not> matches_email_pattern email_text \<and>
         \<not> (\<exists>u. email_text = u @ [CHR 0x0A] \<and> matches_email_pattern u)"
proof -
  have "add_client_dialog_next_step name_text email_text phone_text = Inl EmailInvalid \<longleftrightarrow>
        email_text \<noteq> [] \<and> email_text \<noteq> ''Digite o email'' \<and> \<not> validate_email email_text"
    using assms
    by (simp add: add_client_dialog_next_step_def add_client_next_step_def on_focus_out_text
          on_focus_out_email)
  then show ?thesis
    unfolding validate_email_iff by blast
qed

lemma add_budget_dialog_email_check:
  assumes "name_text \<noteq> []" and "name_text \<noteq> ''Digite o nome''"
  shows "add_budget_dialog_save_budget name_text email_text type_text completion_text
           deadline_text service_text r today db = (db, Warning EmailInvalid) \<longleftrightarrow>
         email_text \<noteq> [] \<and> email_text \<noteq> ''Digite o email'' \<and>
         \<not> matches_email_pattern email_text \<and>
         \<not> (\<exists>u. email_text = u @ [CHR 0x0A] \<and> matches_email_pattern u)"
proof -
  have "add_budget_dialog_save_budget name_text email_text type_text completion_text
          deadline_text service_text r today db = (db, Warning EmailInvalid) \<longleftrightarrow>
        email_text \<noteq> [] \<and> email_text \<noteq> ''Digite o email'' \<and> \<not> validate_email email_text"
    using assms
    by (simp add: add_budget_dialog_save_budget_def add_budget_save_budget_email_check
          on_focus_out_text on_focus_out_email)
  then show ?thesis
    unfolding validate_email_iff by blast
qed

lemma validate_email_newline_example: "validate_email (''a@b.c'' @ [CHR 0x0A])"
  by (simp add: validate_email_def EMAIL_REGEX_def local_class_def domain_class_def
        suffix_class_def)

lemma add_client_dialog_newline_example:
  "add_client_dialog ''Dora'' (''a@b.c'' @ [CHR 0x0A]) ''(11) 9 3333-4444'' [] 1000
     ''03/11/2026'' example_db =
   (example_db(''clients'' \<mapsto>
      example_clients\<lparr>rows := rows example_clients @
         [new_row example_clients client_fields
            [Text ''AUT-2000'', Text ''Dora'', Text (''a@b.c'' @ [CHR 0x0A]),
             Text ''(11) 9 3333-4444'', Text [], Text ''03/11/2026'']],
         last_id := last_id example_clients + 1\<rparr>), Success)"
proof -
  have n: "add_client_dialog_next_step ''Dora'' (''a@b.c'' @ [CHR 0x0A]) ''(11) 9 3333-4444'' =
             Inr (''Dora'', ''a@b.c'' @ [CHR 0x0A], ''(11) 9 3333-4444'')"
    using validate_email_newline_example
    by (simp add: add_client_dialog_next_step_def add_client_next_step_def on_focus_out_def)
  have g: "generate_client_id 1000 = ''AUT-2000''"
    by (simp add: generate_client_id_def str_nat_4 digit_char_def)
  have c: "set client_fields \<subseteq> set (columns example_clients)"
    by (simp add: client_fields_def example_clients_def clients_columns_def)
  show ?thesis
    using c n
    by (simp add: add_client_dialog_def add_client_save_client_def g strip_examples
          sql_insert_ok example_db_tables fold_name_names client_fields_def)
qed

lemma add_budget_dialog_newline_example:
  "add_budget_dialog_save_budget ''Dora'' (''a@b.c'' @ [CHR 0x0A]) ''Logo'' ''10/12/2026''
     ''30 dias'' ''Design'' 0 ''03/11/2026'' example_db =
   (example_db(''budgets'' \<mapsto>
      \<lparr>columns = budgets_columns_main,
       rows = [new_row \<lparr>columns = budgets_columns_main, rows = [], last_id = 0\<rparr>
                 [''budget_id'', ''name'', ''email'', ''date'', ''type'', ''completion'',
                  ''deadline'', ''service'']
                 [Text ''ART-1000'', Text ''Dora'', Text (''a@b.c'' @ [CHR 0x0A]),
                  Text ''03/11/2026'', Text ''Logo'', Text ''10/12/2026'', Text ''30 dias'',
                  Text ''Design'']],
       last_id = 1\<rparr>), Success)"
proof -
  have c: "set [''budget_id'', ''name'', ''email'', ''date'', ''type'', ''completion'',
                ''deadline'', ''service'']
             \<subseteq> set (columns \<lparr>columns = budgets_columns_main, rows = [], last_id = 0\<rparr>)"
    by (simp add: budgets_columns_main_def)
  show ?thesis
    using validate_email_newline_example c
    by (simp add: add_budget_dialog_save_budget_def add_budget_save_budget_def
          on_focus_out_text generate_id_examples sql_insert_ok example_db_tables
          fold_name_names)
qed

text \<open>
  C4. Both add dialogs are meant to reject every text of the email entry that is not
  empty and does not have the shape of an email, and to write nothing then. An entry
  left empty holds its placeholder again when the button is pressed, and is let
  through, as intended. But the text \<open>a@b.c\<close> followed by a newline, which is neither
  empty nor the placeholder and does not have the shape, is let through as well: the
  first dialog for a client passes it on, adding the client succeeds and stores it,
  and adding a budget succeeds and stores it.
\<close>

theorem add_dialogs_accept_email_with_newline:
  "''a@b.c'' @ [CHR 0x0A] \<noteq> [] \<and> ''a@b.c'' @ [CHR 0x0A] \<noteq> ''Digite o email'' \<and>
   \<not> matches_email_pattern (''a@b.c'' @ [CHR 0x0A]) \<and>
   add_client_dialog_next_step ''Dora'' (''a@b.c'' @ [CHR 0x0A]) ''(11) 9 3333-4444'' =
     Inr (''Dora'', ''a@b.c'' @ [CHR 0x0A], ''(11) 9 3333-4444'') \<and>
   snd (add_client_dialog ''Dora'' (''a@b.c'' @ [CHR 0x0A]) ''(11) 9 3333-4444'' [] 1000
          ''03/11/2026'' example_db) = Success \<and>
   sql_select ''clients'' [''name'', ''email'']
     (fst (add_client_dialog ''Dora'' (''a@b.c'' @ [CHR 0x0A]) ''(11) 9 3333-4444'' [] 1000
             ''03/11/2026'' example_db)) =
     Inr [[Text ''Ana'', Text ''ana@x.com''], [Text ''Bruno'', Text ''Digite o email''],
          [Text ''Carla'', Text ''carla@x.com''],
          [Text ''Dora'', Text (''a@b.c'' @ [CHR 0x0A])]] \<and>
   snd (add_budget_dialog_save_budget ''Dora'' (''a@b.c'' @ [CHR 0x0A]) ''Logo''
          ''10/12/2026'' ''30 dias'' ''Design'' 0 ''03/11/2026'' example_db) = Success \<and>
   sql_select ''budgets'' [''name'', ''email'']
     (fst (add_budget_dialog_save_budget ''Dora'' (''a@b.c'' @ [CHR 0x0A]) ''Logo''
             ''10/12/2026'' ''30 dias'' ''Design'' 0 ''03/11/2026'' example_db)) =
     Inr [[Text ''Dora'', Text (''a@b.c'' @ [CHR 0x0A])]]"
proof -
  have p: "\<not> matches_email_pattern (''a@b.c'' @ [CHR 0x0A])"
    by (rule not_matches_email_pattern_newline)
  have n: "add_client_dialog_next_step ''Dora'' (''a@b.c'' @ [CHR 0x0A]) ''(11) 9 3333-4444'' =
             Inr (''Dora'', ''a@b.c'' @ [CHR 0x0A], ''(11) 9 3333-4444'')"
    using validate_email_newline_example
    by (simp add: add_client_dialog_next_step_def add_client_next_step_def on_focus_out_def)
  have c: "sql_select ''clients'' [''name'', ''email'']
             (fst (add_client_dialog ''Dora'' (''a@b.c'' @ [CHR 0x0A]) ''(11) 9 3333-4444'' []
                     1000 ''03/11/2026'' example_db)) =
           Inr [[Text ''Ana'', Text ''ana@x.com''], [Text ''Bruno'', Text ''Digite o email''],
                [Text ''Carla'', Text ''carla@x.com''],
                [Text ''Dora'', Text (''a@b.c'' @ [CHR 0x0A])]]"
    using add_client_dialog_newline_example
    by (simp add: sql_select_def table_check_ok example_clients_def clients_columns_def
          client_fields_def cell_def new_row_def ana_row_def bruno_row_def carla_row_def
          fold_name_names)
  have b: "sql_select ''budgets'' [''name'', ''email'']
             (fst (add_budget_dialog_save_budget ''Dora'' (''a@b.c'' @ [CHR 0x0A]) ''Logo''
                     ''10/12/2026'' ''30 dias'' ''Design'' 0 ''03/11/2026'' example_db)) =
           Inr [[Text ''Dora'', Text (''a@b.c'' @ [CHR 0x0A])]]"
    using add_budget_dialog_newline_example
    by (simp add: sql_select_def table_check_ok budgets_columns_main_def cell_def new_row_def
          fold_name_names)
  show ?thesis
    using p n c b add_client_dialog_newline_example add_budget_dialog_newline_example
    by simp
qed

end
